theory Spec2Isabelle
  imports Main "HOL-Library.AList"
begin
section \<open>Values, objects and the persisted document\<close>

text \<open>
  The program (\<^verbatim>\<open>src/gallery/app.js\<close>) keeps one mutable document \<^verbatim>\<open>state\<close> and
  the id of the signed-in user, \<^verbatim>\<open>viewState.userId\<close>.  Every command is
  modelled as a function from the document to a result and the new document; the
  signed-in user is the explicit argument \<open>actor\<close> (\<open>None\<close> is \<^verbatim>\<open>null\<close>).

  A JavaScript object used as a dictionary is an association list in key order:
  \<open>AList.update\<close> assigns a property (an existing key keeps its place, a new key
  goes to the end, as \<^verbatim>\<open>Object.keys\<close> enumerates string keys), \<open>AList.delete\<close> is
  \<^verbatim>\<open>delete\<close>, and \<^verbatim>\<open>Object.keys\<close>, \<^verbatim>\<open>Object.values\<close> and \<^verbatim>\<open>Object.entries\<close> see the
  list itself.  A property that may be missing is an \<open>option\<close>.  Strings are byte
  lists (UTF-8).  All clock reads (\<^verbatim>\<open>nowISO()\<close>) of one command are given the one
  value \<open>now\<close>.

  Reading a property \<^verbatim>\<open>o[k]\<close> follows the prototype chain.  The dictionaries of the
  document are plain objects, so a key that is not an own property and names a
  member of \<^verbatim>\<open>Object.prototype\<close> reads as that member: a function, or
  \<^verbatim>\<open>Object.prototype\<close> itself for \<^verbatim>\<open>__proto__\<close>.  Such a member is an object like any
  other: the program tests it for truthiness, reads its properties and assigns to
  them.  What the program has assigned to the members is kept beside the document
  in \<open>builtins\<close>; it is not part of what \<^verbatim>\<open>saveState\<close> writes.
\<close>

type_synonym 'a obj = "(string \<times> 'a) list"

text \<open>JavaScript truthiness of a string-or-missing value: \<^verbatim>\<open>null\<close>, \<^verbatim>\<open>undefined\<close>
  and the empty string are falsy.\<close>

fun truthy :: "string option \<Rightarrow> bool" where
  "truthy None = False"
| "truthy (Some s) = (s \<noteq> [])"

text \<open>The value of \<^verbatim>\<open>o[k]\<close> for a plain object \<open>o\<close>: an own property, a member of
  \<^verbatim>\<open>Object.prototype\<close>, or \<^verbatim>\<open>undefined\<close>.\<close>

datatype 'a jsval = Undefined | Own 'a | Inherited

definition objectPrototypeKeys :: "string list" where
  "objectPrototypeKeys =
     [''constructor'', ''__proto__'', ''hasOwnProperty'', ''isPrototypeOf'',
      ''propertyIsEnumerable'', ''toLocaleString'', ''toString'', ''valueOf'',
      ''__defineGetter__'', ''__defineSetter__'', ''__lookupGetter__'', ''__lookupSetter__'']"

definition propertyGet :: "'a obj \<Rightarrow> string \<Rightarrow> 'a jsval" where
  "propertyGet obj k =
     (case map_of obj k of
        Some v \<Rightarrow> Own v
      | None \<Rightarrow> if k \<in> set objectPrototypeKeys then Inherited else Undefined)"

text \<open>\<^verbatim>\<open>String(x)\<close> of a text that may be \<^verbatim>\<open>undefined\<close>.\<close>

definition jsString :: "string option \<Rightarrow> string" where
  "jsString x = (case x of None \<Rightarrow> ''undefined'' | Some s \<Rightarrow> s)"

record user =
  u_userId :: string
  u_username :: string
  u_saltB64 :: string
  u_hashB64 :: string
  u_createdAt :: string
  u_role :: string

record settings =
  s_theme :: "string option"
  s_accent :: "string option"
  s_viewMode :: "string option"

record gallery =
  g_id :: string
  g_title :: string
  g_desc :: string
  g_icon :: string
  g_color :: string
  g_pinned :: bool
  g_createdAt :: string
  g_updatedAt :: string
  g_deletedAt :: "string option"

record post =
  p_id :: string
  p_galleryOwnerId :: "string option"
  p_galleryId :: "string option"
  p_title :: string
  p_content :: string
  p_attachments :: "string list"
  p_createdAt :: string
  p_updatedAt :: string
  p_deletedAt :: "string option"
  p_deletedByGallery :: bool

record comment =
  c_id :: string
  c_postId :: string
  c_text :: string
  c_createdAt :: string
  c_updatedAt :: string
  c_deletedAt :: "string option"

record partition =
  settings :: "settings option"
  galleries :: "gallery obj option"
  posts :: "post obj option"
  comments :: "comment obj option"
  media :: "string obj option"

text \<open>What the program has assigned to one member of \<^verbatim>\<open>Object.prototype\<close>.  The
  program reaches a member in the place of a partition (\<^verbatim>\<open>state.userData[userId]\<close>),
  of a gallery, of a post or of a comment, and it is one object in all these
  places; \<open>b_data\<close> holds the five properties of a partition, the other fields the
  properties written by the commands (\<open>None\<close>: never assigned, or \<^verbatim>\<open>null\<close> for
  \<^verbatim>\<open>deletedAt\<close>).  No member has a property of these names of its own, nor \<^verbatim>\<open>id\<close>,
  \<^verbatim>\<open>galleryId\<close>, \<^verbatim>\<open>galleryOwnerId\<close> or \<^verbatim>\<open>postId\<close>.  What is assigned to
  \<^verbatim>\<open>Object.prototype\<close> itself (the member \<^verbatim>\<open>__proto__\<close>) is kept like the rest and is
  not passed on to the objects that inherit from it.\<close>

record builtin =
  b_data :: partition
  b_title :: "string option"
  b_desc :: "string option"
  b_icon :: "string option"
  b_color :: "string option"
  b_pinned :: "bool option"
  b_content :: "string option"
  b_text :: "string option"
  b_updatedAt :: "string option"
  b_deletedAt :: "string option"
  b_deletedByGallery :: "bool option"

record state =
  version :: nat
  users :: "user obj"
  usernameIndex :: "string obj"
  userData :: "partition obj"
  builtins :: "builtin obj"

text \<open>The tag of a failure names the notice shown with the \<^verbatim>\<open>return false\<close> or
  \<^verbatim>\<open>return null\<close>: \<open>PermissionDenied\<close> is the toast of a failed \<^verbatim>\<open>canManage\<close>,
  \<open>ParentUnavailable\<close> the toast of \<^verbatim>\<open>restorePost\<close>, \<open>InvalidGallery\<close> and
  \<open>InvalidPost\<close> the toasts of \<^verbatim>\<open>createPost\<close> and \<^verbatim>\<open>createComment\<close>, \<open>Refused\<close> a
  silent \<^verbatim>\<open>return false\<close> (entity absent or in the wrong tombstone state).\<close>

datatype failure =
  PermissionDenied
  | Refused
  | ParentUnavailable
  | InvalidGallery
  | InvalidPost
  | InvalidUsername
  | DuplicateUsername
  | InvalidCredentials
  | Aborted

definition emptyState :: state where
  "emptyState = \<lparr>version = 2, users = [], usernameIndex = [], userData = [], builtins = []\<rparr>"

subsection \<open>Partitions: \<^verbatim>\<open>ensureUserData\<close>\<close>

definition defaultSettings :: settings where
  "defaultSettings =
     \<lparr>s_theme = Some ''dark'', s_accent = Some ''#6EE7FF'', s_viewMode = Some ''grid''\<rparr>"

definition defaultPartition :: partition where
  "defaultPartition =
     \<lparr>settings = Some defaultSettings, galleries = Some [], posts = Some [],
      comments = Some [], media = Some []\<rparr>"

definition orDefault :: "'a option \<Rightarrow> 'a \<Rightarrow> 'a" where
  "orDefault x d = (case x of None \<Rightarrow> d | Some v \<Rightarrow> v)"

definition orString :: "string option \<Rightarrow> string \<Rightarrow> string" where
  "orString x d = (if truthy x then the x else d)"

definition normalizeSettings :: "settings \<Rightarrow> settings" where
  "normalizeSettings s =
     \<lparr>s_theme = Some (orString (s_theme s) ''dark''),
      s_accent = Some (orString (s_accent s) ''#6EE7FF''),
      s_viewMode = Some (orString (s_viewMode s) ''grid'')\<rparr>"

text \<open>The eight \<^verbatim>\<open>||=\<close> of \<^verbatim>\<open>ensureUserData\<close> on the object \<^verbatim>\<open>ud\<close>.\<close>

definition normalizePartition :: "partition \<Rightarrow> partition" where
  "normalizePartition ud =
     \<lparr>settings = Some (normalizeSettings (orDefault (settings ud) defaultSettings)),
      galleries = Some (orDefault (galleries ud) []),
      posts = Some (orDefault (posts ud) []),
      comments = Some (orDefault (comments ud) []),
      media = Some (orDefault (media ud) [])\<rparr>"

text \<open>A member of \<^verbatim>\<open>Object.prototype\<close> the program has not written to has none of
  the properties.\<close>

definition emptyBuiltin :: builtin where
  "emptyBuiltin =
     \<lparr>b_data = \<lparr>settings = None, galleries = None, posts = None, comments = None,
                 media = None\<rparr>,
      b_title = None, b_desc = None, b_icon = None, b_color = None, b_pinned = None,
      b_content = None, b_text = None, b_updatedAt = None, b_deletedAt = None,
      b_deletedByGallery = None\<rparr>"

definition builtinAt :: "state \<Rightarrow> string \<Rightarrow> builtin" where
  "builtinAt st k = orDefault (map_of (builtins st) k) emptyBuiltin"

definition modifyBuiltin :: "string \<Rightarrow> (builtin \<Rightarrow> builtin) \<Rightarrow> state \<Rightarrow> state" where
  "modifyBuiltin k f st = st\<lparr>builtins := AList.update k (f (builtinAt st k)) (builtins st)\<rparr>"

text \<open>\<^verbatim>\<open>state.userData[userId] ||= {...}\<close> assigns the default partition only when the
  read is \<^verbatim>\<open>undefined\<close>.  When \<^verbatim>\<open>userId\<close> names a member of \<^verbatim>\<open>Object.prototype\<close> and
  no partition is stored under it, the read is that member, nothing is stored in
  \<^verbatim>\<open>userData\<close>, and the following \<^verbatim>\<open>||=\<close> put the missing properties on the member.\<close>

definition ensureUserData :: "string \<Rightarrow> state \<Rightarrow> state" where
  "ensureUserData userId st =
     (case propertyGet (userData st) userId of
        Undefined \<Rightarrow> st\<lparr>userData := AList.update userId defaultPartition (userData st)\<rparr>
      | Own ud \<Rightarrow> st\<lparr>userData := AList.update userId (normalizePartition ud) (userData st)\<rparr>
      | Inherited \<Rightarrow> modifyBuiltin userId (\<lambda>b. b\<lparr>b_data := normalizePartition (b_data b)\<rparr>) st)"

text \<open>The object \<^verbatim>\<open>state.userData[userId]\<close> read as a partition, and reading through
  it: \<^verbatim>\<open>ud.galleries?.[gid]\<close>, \<^verbatim>\<open>ud.posts?.[pid]\<close>, \<^verbatim>\<open>ud.comments?.[cid]\<close>.\<close>

definition partitionOf :: "state \<Rightarrow> string \<Rightarrow> partition option" where
  "partitionOf st userId =
     (case propertyGet (userData st) userId of
        Undefined \<Rightarrow> None
      | Own ud \<Rightarrow> Some ud
      | Inherited \<Rightarrow> Some (b_data (builtinAt st userId)))"

definition galleryAt :: "state \<Rightarrow> string \<Rightarrow> string \<Rightarrow> gallery jsval" where
  "galleryAt st ownerId gid =
     (case partitionOf st ownerId of
        None \<Rightarrow> Undefined
      | Some ud \<Rightarrow> (case galleries ud of None \<Rightarrow> Undefined | Some gs \<Rightarrow> propertyGet gs gid))"

definition postAt :: "state \<Rightarrow> string \<Rightarrow> string \<Rightarrow> post jsval" where
  "postAt st authorId pid =
     (case partitionOf st authorId of
        None \<Rightarrow> Undefined
      | Some ud \<Rightarrow> (case posts ud of None \<Rightarrow> Undefined | Some ps \<Rightarrow> propertyGet ps pid))"

definition commentAt :: "state \<Rightarrow> string \<Rightarrow> string \<Rightarrow> comment jsval" where
  "commentAt st authorId cid =
     (case partitionOf st authorId of
        None \<Rightarrow> Undefined
      | Some ud \<Rightarrow> (case comments ud of None \<Rightarrow> Undefined | Some cs \<Rightarrow> propertyGet cs cid))"

text \<open>Writing through the reference \<^verbatim>\<open>ud\<close>: the partition is the one stored under
  \<^verbatim>\<open>userId\<close>, or the member of \<^verbatim>\<open>Object.prototype\<close> of that name.\<close>

definition modifyPartition :: "string \<Rightarrow> (partition \<Rightarrow> partition) \<Rightarrow> state \<Rightarrow> state" where
  "modifyPartition userId f st =
     (case propertyGet (userData st) userId of
        Inherited \<Rightarrow> modifyBuiltin userId (\<lambda>b. b\<lparr>b_data := f (b_data b)\<rparr>) st
      | _ \<Rightarrow> st\<lparr>userData := AList.map_entry userId f (userData st)\<rparr>)"

text \<open>Writing through a reference to a stored object: the object is the one stored
  under its key in its partition.\<close>

definition modifyGallery :: "string \<Rightarrow> string \<Rightarrow> (gallery \<Rightarrow> gallery) \<Rightarrow> state \<Rightarrow> state" where
  "modifyGallery ownerId gid f st =
     modifyPartition ownerId
       (\<lambda>ud. ud\<lparr>galleries := map_option (AList.map_entry gid f) (galleries ud)\<rparr>) st"

definition modifyPost :: "string \<Rightarrow> string \<Rightarrow> (post \<Rightarrow> post) \<Rightarrow> state \<Rightarrow> state" where
  "modifyPost authorId pid f st =
     modifyPartition authorId
       (\<lambda>ud. ud\<lparr>posts := map_option (AList.map_entry pid f) (posts ud)\<rparr>) st"

definition modifyComment :: "string \<Rightarrow> string \<Rightarrow> (comment \<Rightarrow> comment) \<Rightarrow> state \<Rightarrow> state" where
  "modifyComment authorId cid f st =
     modifyPartition authorId
       (\<lambda>ud. ud\<lparr>comments := map_option (AList.map_entry cid f) (comments ud)\<rparr>) st"

subsection \<open>Permission: \<^verbatim>\<open>isAdmin\<close>, \<^verbatim>\<open>canManage\<close>\<close>

text \<open>\<^verbatim>\<open>state.users?.[viewState.userId]\<close> with \<^verbatim>\<open>viewState.userId = null\<close> reads the
  property named \<^verbatim>\<open>"null"\<close>.  A member of \<^verbatim>\<open>Object.prototype\<close> read in the place of a
  user has no \<^verbatim>\<open>role\<close> and no \<^verbatim>\<open>username\<close>, like a missing user.\<close>

definition propertyKey :: "string option \<Rightarrow> string" where
  "propertyKey a = (case a of None \<Rightarrow> ''null'' | Some s \<Rightarrow> s)"

definition isAdmin :: "string option \<Rightarrow> state \<Rightarrow> bool" where
  "isAdmin actor st =
     (case map_of (users st) (propertyKey actor) of
        None \<Rightarrow> False
      | Some u \<Rightarrow> u_role u = ''admin'')"

definition canManage :: "string option \<Rightarrow> string \<Rightarrow> state \<Rightarrow> bool" where
  "canManage actor userId st = (isAdmin actor st \<or> Some userId = actor)"

subsection \<open>Listing: \<^verbatim>\<open>getUserName\<close>, \<^verbatim>\<open>listPostsInGallery\<close>\<close>

definition getUserName :: "state \<Rightarrow> string \<Rightarrow> string" where
  "getUserName st userId =
     (case map_of (users st) userId of
        None \<Rightarrow> ''unknown''
      | Some u \<Rightarrow> (if u_username u \<noteq> [] then u_username u else ''unknown''))"

record postEntry =
  e_ownerId :: string
  e_ownerName :: string
  e_key :: string
  e_p :: post

text \<open>The owner a post's gallery is looked up under: \<^verbatim>\<open>p.galleryOwnerId || authorId\<close>.\<close>

definition galleryOwnerOf :: "string \<Rightarrow> post \<Rightarrow> string" where
  "galleryOwnerOf authorId p = orString (p_galleryOwnerId p) authorId"

definition postMatches :: "string \<Rightarrow> string \<Rightarrow> bool \<Rightarrow> string \<Rightarrow> post \<Rightarrow> bool" where
  "postMatches galleryOwnerId galleryId includeDeleted authorId p =
     (galleryOwnerOf authorId p = galleryOwnerId \<and> p_galleryId p = Some galleryId
      \<and> (includeDeleted \<or> \<not> truthy (p_deletedAt p)))"

text \<open>The listings run over \<^verbatim>\<open>Object.keys(state.userData)\<close>, the stored partitions,
  and over the own values of their dictionaries.\<close>

definition postEntriesOf ::
  "state \<Rightarrow> string \<Rightarrow> string \<Rightarrow> bool \<Rightarrow> string \<Rightarrow> postEntry list" where
  "postEntriesOf st galleryOwnerId galleryId includeDeleted authorId =
     map (\<lambda>(k, p). \<lparr>e_ownerId = authorId, e_ownerName = getUserName st authorId,
                     e_key = k, e_p = p\<rparr>)
       (filter (\<lambda>(k, p). postMatches galleryOwnerId galleryId includeDeleted authorId p)
          (orDefault (posts (orDefault (map_of (userData st) authorId) defaultPartition)) []))"

fun listPostsLoop ::
  "string \<Rightarrow> string \<Rightarrow> bool \<Rightarrow> string list \<Rightarrow> postEntry list \<Rightarrow> state
    \<Rightarrow> postEntry list \<times> state" where
  "listPostsLoop galleryOwnerId galleryId includeDeleted [] out st = (out, st)"
| "listPostsLoop galleryOwnerId galleryId includeDeleted (authorId # owners) out st =
     (let st1 = ensureUserData authorId st
      in listPostsLoop galleryOwnerId galleryId includeDeleted owners
           (out @ postEntriesOf st1 galleryOwnerId galleryId includeDeleted authorId) st1)"

definition listPostsInGallery ::
  "string \<Rightarrow> string \<Rightarrow> bool \<Rightarrow> state \<Rightarrow> postEntry list \<times> state" where
  "listPostsInGallery galleryOwnerId galleryId includeDeleted st =
     listPostsLoop galleryOwnerId galleryId includeDeleted (map fst (userData st)) [] st"

subsection \<open>Gallery life cycle: \<^verbatim>\<open>deleteGallerySoft\<close>, \<^verbatim>\<open>restoreGallery\<close>\<close>

definition tombstoneByGallery :: "string \<Rightarrow> post \<Rightarrow> post" where
  "tombstoneByGallery now p =
     (if \<not> truthy (p_deletedAt p)
      then p\<lparr>p_deletedAt := Some now, p_updatedAt := now, p_deletedByGallery := True\<rparr>
      else p)"

text \<open>In each command the branch \<open>Inherited\<close> is the run on a member of
  \<^verbatim>\<open>Object.prototype\<close>: the member passes the test \<^verbatim>\<open>!g\<close>, its \<^verbatim>\<open>deletedAt\<close> is what an
  earlier command has assigned to it, and the assignments go to the member.\<close>

definition deleteGallerySoft ::
  "string option \<Rightarrow> string \<Rightarrow> string \<Rightarrow> string \<Rightarrow> state \<Rightarrow> (failure + unit) \<times> state" where
  "deleteGallerySoft actor now ownerId gid st =
     (if \<not> canManage actor ownerId st then (Inl PermissionDenied, st)
      else
        let st1 = ensureUserData ownerId st in
        case galleryAt st1 ownerId gid of
          Undefined \<Rightarrow> (Inl Refused, st1)
        | Own g \<Rightarrow>
            if truthy (g_deletedAt g) then (Inl Refused, st1)
            else
              let st2 = modifyGallery ownerId gid
                          (\<lambda>g. g\<lparr>g_deletedAt := Some now, g_updatedAt := now\<rparr>) st1;
                  (entries, st3) = listPostsInGallery ownerId gid True st2
              in (Inr (),
                  fold (\<lambda>e. modifyPost (e_ownerId e) (e_key e) (tombstoneByGallery now))
                    entries st3)
        | Inherited \<Rightarrow>
            if truthy (b_deletedAt (builtinAt st1 gid)) then (Inl Refused, st1)
            else
              let st2 = modifyBuiltin gid
                          (\<lambda>b. b\<lparr>b_deletedAt := Some now, b_updatedAt := Some now\<rparr>) st1;
                  (entries, st3) = listPostsInGallery ownerId gid True st2
              in (Inr (),
                  fold (\<lambda>e. modifyPost (e_ownerId e) (e_key e) (tombstoneByGallery now))
                    entries st3))"

definition restoreByGallery :: "string \<Rightarrow> post \<Rightarrow> post" where
  "restoreByGallery now p =
     (if truthy (p_deletedAt p) \<and> p_deletedByGallery p
      then p\<lparr>p_deletedAt := None, p_deletedByGallery := False, p_updatedAt := now\<rparr>
      else p)"

definition restoreGallery ::
  "string option \<Rightarrow> string \<Rightarrow> string \<Rightarrow> string \<Rightarrow> state \<Rightarrow> (failure + unit) \<times> state" where
  "restoreGallery actor now ownerId gid st =
     (if \<not> canManage actor ownerId st then (Inl PermissionDenied, st)
      else
        let st1 = ensureUserData ownerId st in
        case galleryAt st1 ownerId gid of
          Undefined \<Rightarrow> (Inl Refused, st1)
        | Own g \<Rightarrow>
            if \<not> truthy (g_deletedAt g) then (Inl Refused, st1)
            else
              let st2 = modifyGallery ownerId gid
                          (\<lambda>g. g\<lparr>g_deletedAt := None, g_updatedAt := now\<rparr>) st1;
                  (entries, st3) = listPostsInGallery ownerId gid True st2
              in (Inr (),
                  fold (\<lambda>e. modifyPost (e_ownerId e) (e_key e) (restoreByGallery now))
                    entries st3)
        | Inherited \<Rightarrow>
            if \<not> truthy (b_deletedAt (builtinAt st1 gid)) then (Inl Refused, st1)
            else
              let st2 = modifyBuiltin gid
                          (\<lambda>b. b\<lparr>b_deletedAt := None, b_updatedAt := Some now\<rparr>) st1;
                  (entries, st3) = listPostsInGallery ownerId gid True st2
              in (Inr (),
                  fold (\<lambda>e. modifyPost (e_ownerId e) (e_key e) (restoreByGallery now))
                    entries st3))"

subsection \<open>Resolution across partitions: \<^verbatim>\<open>resolveGalleryCtx\<close>, \<^verbatim>\<open>resolvePostCtx\<close>\<close>

text \<open>The result is the \<^verbatim>\<open>ownerId\<close> and the object found, \<open>Own\<close> or \<open>Inherited\<close>; the
  latter is the member named by the id that was looked up.\<close>

fun scanGalleries ::
  "string \<Rightarrow> string list \<Rightarrow> state \<Rightarrow> (string \<times> gallery jsval) option \<times> state" where
  "scanGalleries gid [] st = (None, st)"
| "scanGalleries gid (ownerId # owners) st =
     (let st1 = ensureUserData ownerId st in
      case galleryAt st1 ownerId gid of
        Undefined \<Rightarrow> scanGalleries gid owners st1
      | Own g \<Rightarrow> (Some (ownerId, Own g), st1)
      | Inherited \<Rightarrow> (Some (ownerId, Inherited), st1))"

definition resolveGalleryCtx ::
  "string option \<Rightarrow> string option \<Rightarrow> state \<Rightarrow> (string \<times> gallery jsval) option \<times> state" where
  "resolveGalleryCtx gid ownerHint st =
     (case gid of
        None \<Rightarrow> (None, st)
      | Some k \<Rightarrow>
          if k = [] then (None, st)
          else if truthy ownerHint then
            (let h = orString ownerHint [];
                 st1 = ensureUserData h st in
             case galleryAt st1 h k of
               Undefined \<Rightarrow> scanGalleries k (map fst (userData st1)) st1
             | Own g \<Rightarrow> (Some (h, Own g), st1)
             | Inherited \<Rightarrow> (Some (h, Inherited), st1))
          else scanGalleries k (map fst (userData st)) st)"

fun scanPosts ::
  "string \<Rightarrow> string list \<Rightarrow> state \<Rightarrow> (string \<times> post jsval) option \<times> state" where
  "scanPosts pid [] st = (None, st)"
| "scanPosts pid (ownerId # owners) st =
     (let st1 = ensureUserData ownerId st in
      case postAt st1 ownerId pid of
        Undefined \<Rightarrow> scanPosts pid owners st1
      | Own p \<Rightarrow> (Some (ownerId, Own p), st1)
      | Inherited \<Rightarrow> (Some (ownerId, Inherited), st1))"

definition resolvePostCtx ::
  "string option \<Rightarrow> string option \<Rightarrow> state \<Rightarrow> (string \<times> post jsval) option \<times> state" where
  "resolvePostCtx pid authorHint st =
     (case pid of
        None \<Rightarrow> (None, st)
      | Some k \<Rightarrow>
          if k = [] then (None, st)
          else if truthy authorHint then
            (let h = orString authorHint [];
                 st1 = ensureUserData h st in
             case postAt st1 h k of
               Undefined \<Rightarrow> scanPosts k (map fst (userData st1)) st1
             | Own p \<Rightarrow> (Some (h, Own p), st1)
             | Inherited \<Rightarrow> (Some (h, Inherited), st1))
          else scanPosts k (map fst (userData st)) st)"

text \<open>\<^verbatim>\<open>g.deletedAt\<close> and \<^verbatim>\<open>g.id\<close> of the gallery found under the id \<open>gid\<close>, and
  \<^verbatim>\<open>p.deletedAt\<close> of the post found under \<open>pid\<close>.\<close>

definition galleryDeletedAt :: "state \<Rightarrow> string \<Rightarrow> gallery jsval \<Rightarrow> string option" where
  "galleryDeletedAt st gid g =
     (case g of
        Undefined \<Rightarrow> None
      | Own g0 \<Rightarrow> g_deletedAt g0
      | Inherited \<Rightarrow> b_deletedAt (builtinAt st gid))"

definition galleryIdOf :: "gallery jsval \<Rightarrow> string option" where
  "galleryIdOf g = (case g of Own g0 \<Rightarrow> Some (g_id g0) | _ \<Rightarrow> None)"

definition postDeletedAt :: "state \<Rightarrow> string \<Rightarrow> post jsval \<Rightarrow> string option" where
  "postDeletedAt st pid p =
     (case p of
        Undefined \<Rightarrow> None
      | Own p0 \<Rightarrow> p_deletedAt p0
      | Inherited \<Rightarrow> b_deletedAt (builtinAt st pid))"

subsection \<open>The other listings: \<^verbatim>\<open>listAllGalleryEntries\<close>, \<^verbatim>\<open>listCommentsForPost\<close>\<close>

record galleryEntry =
  ge_ownerId :: string
  ge_ownerName :: string
  ge_key :: string
  ge_g :: gallery

fun listGalleriesLoop ::
  "bool \<Rightarrow> string list \<Rightarrow> galleryEntry list \<Rightarrow> state \<Rightarrow> galleryEntry list \<times> state" where
  "listGalleriesLoop includeDeleted [] out st = (out, st)"
| "listGalleriesLoop includeDeleted (ownerId # owners) out st =
     (let st1 = ensureUserData ownerId st;
          ud = orDefault (map_of (userData st1) ownerId) defaultPartition
      in listGalleriesLoop includeDeleted owners
           (out @ map (\<lambda>(k, g). \<lparr>ge_ownerId = ownerId, ge_ownerName = getUserName st1 ownerId,
                                  ge_key = k, ge_g = g\<rparr>)
                    (filter (\<lambda>(k, g). includeDeleted \<or> \<not> truthy (g_deletedAt g))
                       (orDefault (galleries ud) [])))
           st1)"

definition listAllGalleryEntries :: "bool \<Rightarrow> state \<Rightarrow> galleryEntry list \<times> state" where
  "listAllGalleryEntries includeDeleted st =
     listGalleriesLoop includeDeleted (map fst (userData st)) [] st"

record commentEntry =
  ce_ownerId :: string
  ce_ownerName :: string
  ce_key :: string
  ce_c :: comment

fun listCommentsLoop ::
  "string \<Rightarrow> bool \<Rightarrow> string list \<Rightarrow> commentEntry list \<Rightarrow> state
    \<Rightarrow> commentEntry list \<times> state" where
  "listCommentsLoop postId includeDeleted [] out st = (out, st)"
| "listCommentsLoop postId includeDeleted (authorId # owners) out st =
     (let st1 = ensureUserData authorId st;
          ud = orDefault (map_of (userData st1) authorId) defaultPartition
      in listCommentsLoop postId includeDeleted owners
           (out @ map (\<lambda>(k, c). \<lparr>ce_ownerId = authorId, ce_ownerName = getUserName st1 authorId,
                                  ce_key = k, ce_c = c\<rparr>)
                    (filter (\<lambda>(k, c). c_postId c = postId
                                \<and> (includeDeleted \<or> \<not> truthy (c_deletedAt c)))
                       (orDefault (comments ud) [])))
           st1)"

text \<open>\<^verbatim>\<open>out.sort\<close> by \<^verbatim>\<open>createdAt\<close> is a stable sort; \<^verbatim>\<open>localeCompare\<close> is the
  parameter \<open>le\<close> (\<open>le a b\<close> when \<^verbatim>\<open>a.localeCompare(b) <= 0\<close>).\<close>

fun insertEntry ::
  "(string \<Rightarrow> string \<Rightarrow> bool) \<Rightarrow> commentEntry \<Rightarrow> commentEntry list \<Rightarrow> commentEntry list" where
  "insertEntry le e [] = [e]"
| "insertEntry le e (x # xs) =
     (if le (c_createdAt (ce_c e)) (c_createdAt (ce_c x)) then e # x # xs
      else x # insertEntry le e xs)"

definition listCommentsForPost ::
  "(string \<Rightarrow> string \<Rightarrow> bool) \<Rightarrow> string \<Rightarrow> bool \<Rightarrow> state \<Rightarrow> commentEntry list \<times> state" where
  "listCommentsForPost le postId includeDeleted st =
     (let (out, st1) = listCommentsLoop postId includeDeleted (map fst (userData st)) [] st
      in (foldr (insertEntry le) out [], st1))"

section \<open>Strings\<close>

text \<open>A string is its UTF-8 bytes.  \<^verbatim>\<open>u.length\<close> counts UTF-16 code units: one for
  every character, two for a character outside the basic plane (a four-byte
  sequence).  \<^verbatim>\<open>\s\<close> and \<^verbatim>\<open>trim\<close> use the white space and line terminators of
  ECMAScript, listed here in UTF-8.\<close>

definition jsLength :: "string \<Rightarrow> nat" where
  "jsLength s =
     length (filter (\<lambda>c. (of_char c :: nat) div 64 \<noteq> 2) s)
     + length (filter (\<lambda>c. 240 \<le> (of_char c :: nat)) s)"

definition jsWhitespace :: "string list" where
  "jsWhitespace =
     [[CHR 0x09], [CHR 0x0A], [CHR 0x0B], [CHR 0x0C], [CHR 0x0D], [CHR 0x20],
      [CHR 0xC2, CHR 0xA0], [CHR 0xE1, CHR 0x9A, CHR 0x80],
      [CHR 0xE2, CHR 0x80, CHR 0x80], [CHR 0xE2, CHR 0x80, CHR 0x81],
      [CHR 0xE2, CHR 0x80, CHR 0x82], [CHR 0xE2, CHR 0x80, CHR 0x83],
      [CHR 0xE2, CHR 0x80, CHR 0x84], [CHR 0xE2, CHR 0x80, CHR 0x85],
      [CHR 0xE2, CHR 0x80, CHR 0x86], [CHR 0xE2, CHR 0x80, CHR 0x87],
      [CHR 0xE2, CHR 0x80, CHR 0x88], [CHR 0xE2, CHR 0x80, CHR 0x89],
      [CHR 0xE2, CHR 0x80, CHR 0x8A], [CHR 0xE2, CHR 0x80, CHR 0xA8],
      [CHR 0xE2, CHR 0x80, CHR 0xA9], [CHR 0xE2, CHR 0x80, CHR 0xAF],
      [CHR 0xE2, CHR 0x81, CHR 0x9F], [CHR 0xE3, CHR 0x80, CHR 0x80],
      [CHR 0xEF, CHR 0xBB, CHR 0xBF]]"

definition startsWithAny :: "string list \<Rightarrow> string \<Rightarrow> bool" where
  "startsWithAny ws s = list_ex (\<lambda>w. take (length w) s = w) ws"

fun hasWhitespace :: "string \<Rightarrow> bool" where
  "hasWhitespace [] = False"
| "hasWhitespace (c # cs) = (startsWithAny jsWhitespace (c # cs) \<or> hasWhitespace cs)"

fun stripLeading :: "string list \<Rightarrow> string \<Rightarrow> string" where
  "stripLeading ws [] = []"
| "stripLeading ws (c # cs) =
     (case find (\<lambda>w. w \<noteq> [] \<and> take (length w) (c # cs) = w) ws of
        None \<Rightarrow> c # cs
      | Some w \<Rightarrow> stripLeading ws (drop (length w - 1) cs))"

definition trim :: "string \<Rightarrow> string" where
  "trim s = rev (stripLeading (map rev jsWhitespace) (rev (stripLeading jsWhitespace s)))"

definition isValidUsername :: "string \<Rightarrow> bool" where
  "isValidUsername u =
     (if u = [] then False
      else if jsLength u < 2 \<or> jsLength u > 20 then False
      else if hasWhitespace u then False
      else True)"

definition isHexDigit :: "char \<Rightarrow> bool" where
  "isHexDigit c =
     (let n = (of_char c :: nat)
      in (48 \<le> n \<and> n \<le> 57) \<or> (65 \<le> n \<and> n \<le> 70) \<or> (97 \<le> n \<and> n \<le> 102))"

definition toUpper :: "char \<Rightarrow> char" where
  "toUpper c =
     (let n = (of_char c :: nat) in if 97 \<le> n \<and> n \<le> 122 then char_of (n - 32) else c)"

text \<open>\<^verbatim>\<open>normalizeHex\<close>: the pattern \<^verbatim>\<open>/^#?([0-9a-fA-F]{6})$/\<close> on the trimmed text.\<close>

definition normalizeHex :: "string \<Rightarrow> string" where
  "normalizeHex hex =
     (let t = trim hex;
          h = (case t of c # cs \<Rightarrow> (if c = CHR ''#'' then cs else t) | [] \<Rightarrow> t)
      in if length h = 6 \<and> list_all isHexDigit h then CHR ''#'' # map toUpper h
         else ''#6EE7FF'')"

text \<open>\<^verbatim>\<open>safeId(prefix)\<close>: the prefix and the base64url text of twelve random bytes;
  the random text is the argument \<open>rnd\<close>.\<close>

definition safeId :: "string \<Rightarrow> string \<Rightarrow> string" where
  "safeId prefix rnd = prefix @ rnd"

text \<open>The Korean default titles of \<^verbatim>\<open>createGallery\<close> ("new gallery") and
  \<^verbatim>\<open>createPost\<close> ("new post") and the framed-picture emoji, as UTF-8 bytes.\<close>

definition defaultGalleryTitle :: string where
  "defaultGalleryTitle =
     [CHR 0xEC, CHR 0x83, CHR 0x88, CHR 0x20, CHR 0xEA, CHR 0xB0, CHR 0xA4,
      CHR 0xEB, CHR 0x9F, CHR 0xAC, CHR 0xEB, CHR 0xA6, CHR 0xAC]"

definition defaultGalleryIcon :: string where
  "defaultGalleryIcon = [CHR 0xF0, CHR 0x9F, CHR 0x96, CHR 0xBC, CHR 0xEF, CHR 0xB8, CHR 0x8F]"

definition defaultPostTitle :: string where
  "defaultPostTitle =
     [CHR 0xEC, CHR 0x83, CHR 0x88, CHR 0x20, CHR 0xEA, CHR 0xB2, CHR 0x8C,
      CHR 0xEC, CHR 0x8B, CHR 0x9C, CHR 0xEB, CHR 0xAC, CHR 0xBC]"

section \<open>Commands\<close>

subsection \<open>Galleries: \<^verbatim>\<open>createGallery\<close>, \<^verbatim>\<open>updateGallery\<close>, \<^verbatim>\<open>purgeGallery\<close>\<close>

record galleryData =
  gd_title :: "string option"
  gd_desc :: "string option"
  gd_icon :: "string option"
  gd_color :: "string option"
  gd_pinned :: "bool option"

definition setGallery :: "string \<Rightarrow> string \<Rightarrow> gallery \<Rightarrow> state \<Rightarrow> state" where
  "setGallery ownerId gid g st =
     modifyPartition ownerId
       (\<lambda>ud. ud\<lparr>galleries := map_option (AList.update gid g) (galleries ud)\<rparr>) st"

definition createGallery ::
  "string option \<Rightarrow> string \<Rightarrow> string \<Rightarrow> string \<Rightarrow> galleryData \<Rightarrow> state
    \<Rightarrow> (failure + gallery) \<times> state" where
  "createGallery actor now rnd ownerId data st =
     (if \<not> canManage actor ownerId st then (Inl PermissionDenied, st)
      else
        let st1 = ensureUserData ownerId st;
            gid = safeId ''g_'' rnd;
            g = \<lparr>g_id = gid,
                 g_title = trim (orString (gd_title data) defaultGalleryTitle),
                 g_desc = trim (orString (gd_desc data) []),
                 g_icon = orString (gd_icon data) defaultGalleryIcon,
                 g_color = normalizeHex (orString (gd_color data) ''#6EE7FF''),
                 g_pinned = orDefault (gd_pinned data) False,
                 g_createdAt = now, g_updatedAt = now, g_deletedAt = None\<rparr>
        in (Inr g, setGallery ownerId gid g st1))"

definition updateGallery ::
  "string option \<Rightarrow> string \<Rightarrow> string \<Rightarrow> string \<Rightarrow> galleryData \<Rightarrow> state
    \<Rightarrow> (failure + unit) \<times> state" where
  "updateGallery actor now ownerId gid patch st =
     (if \<not> canManage actor ownerId st then (Inl PermissionDenied, st)
      else
        let st1 = ensureUserData ownerId st in
        case galleryAt st1 ownerId gid of
          Undefined \<Rightarrow> (Inl Refused, st1)
        | Own g0 \<Rightarrow>
            if truthy (g_deletedAt g0) then (Inl Refused, st1)
            else
              (Inr (),
               modifyGallery ownerId gid
                 (\<lambda>g. g\<lparr>g_title := trim (orDefault (gd_title patch) (g_title g)),
                         g_desc := trim (orDefault (gd_desc patch) (g_desc g)),
                         g_icon := orDefault (gd_icon patch) (g_icon g),
                         g_color := normalizeHex (orDefault (gd_color patch) (g_color g)),
                         g_pinned := orDefault (gd_pinned patch) (g_pinned g),
                         g_updatedAt := now\<rparr>)
                 st1)
        | Inherited \<Rightarrow>
            if truthy (b_deletedAt (builtinAt st1 gid)) then (Inl Refused, st1)
            else
              (Inr (),
               modifyBuiltin gid
                 (\<lambda>b. b\<lparr>b_title := Some (trim (orDefault (gd_title patch) (jsString (b_title b)))),
                         b_desc := Some (trim (orDefault (gd_desc patch) (jsString (b_desc b)))),
                         b_icon := Some (orDefault (gd_icon patch) (jsString (b_icon b))),
                         b_color :=
                           Some (normalizeHex
                                   (orDefault (gd_color patch) (orDefault (b_color b) []))),
                         b_pinned :=
                           (case gd_pinned patch of None \<Rightarrow> b_pinned b | Some v \<Rightarrow> Some v),
                         b_updatedAt := Some now\<rparr>)
                 st1))"

text \<open>The comment loop of the two purges: every partition is normalised, then each
  of its comments whose \<^verbatim>\<open>postId\<close> is hit is deleted under its key.\<close>

definition deleteCommentsWhere :: "(string \<Rightarrow> bool) \<Rightarrow> string \<Rightarrow> state \<Rightarrow> state" where
  "deleteCommentsWhere hit commenterId st =
     modifyPartition commenterId
       (\<lambda>cud. cud\<lparr>comments :=
           map_option
             (\<lambda>cs. fold AList.delete (map fst (filter (\<lambda>(cid, c). hit (c_postId c)) cs)) cs)
             (comments cud)\<rparr>)
       st"

fun purgeCommentsLoop :: "(string \<Rightarrow> bool) \<Rightarrow> string list \<Rightarrow> state \<Rightarrow> state" where
  "purgeCommentsLoop hit [] st = st"
| "purgeCommentsLoop hit (commenterId # rest) st =
     purgeCommentsLoop hit rest (deleteCommentsWhere hit commenterId (ensureUserData commenterId st))"

definition deletePost :: "string \<Rightarrow> string \<Rightarrow> state \<Rightarrow> state" where
  "deletePost authorId pid st =
     modifyPartition authorId
       (\<lambda>ud. ud\<lparr>posts := map_option (AList.delete pid) (posts ud)\<rparr>) st"

definition deleteGallery :: "string \<Rightarrow> string \<Rightarrow> state \<Rightarrow> state" where
  "deleteGallery ownerId gid st =
     modifyPartition ownerId
       (\<lambda>ud. ud\<lparr>galleries := map_option (AList.delete gid) (galleries ud)\<rparr>) st"

text \<open>\<^verbatim>\<open>purgeGallery\<close> only tests \<^verbatim>\<open>!g\<close>; an inherited member passes, and the
  \<^verbatim>\<open>delete\<close> of a key that is not an own property does nothing.\<close>

definition purgeGallery ::
  "string option \<Rightarrow> string \<Rightarrow> string \<Rightarrow> state \<Rightarrow> (failure + unit) \<times> state" where
  "purgeGallery actor ownerId gid st =
     (if \<not> canManage actor ownerId st then (Inl PermissionDenied, st)
      else
        let st1 = ensureUserData ownerId st in
        if galleryAt st1 ownerId gid = Undefined then (Inl Refused, st1)
        else
          let (entries, st2) = listPostsInGallery ownerId gid True st1;
              postIds = map (\<lambda>e. p_id (e_p e)) entries;
              st3 = purgeCommentsLoop (\<lambda>pid. pid \<in> set postIds) (map fst (userData st2)) st2;
              st4 = fold (\<lambda>e. deletePost (e_ownerId e) (p_id (e_p e))) entries st3
          in (Inr (), deleteGallery ownerId gid st4))"

subsection \<open>Posts\<close>

record postData =
  pd_galleryId :: "string option"
  pd_galleryOwnerId :: "string option"
  pd_title :: "string option"
  pd_content :: "string option"

definition setPost :: "string \<Rightarrow> string \<Rightarrow> post \<Rightarrow> state \<Rightarrow> state" where
  "setPost authorId pid p st =
     modifyPartition authorId
       (\<lambda>ud. ud\<lparr>posts := map_option (AList.update pid p) (posts ud)\<rparr>) st"

text \<open>The new post takes \<^verbatim>\<open>galleryId\<close> from \<^verbatim>\<open>gctx.g.id\<close>, which an inherited member
  does not have.\<close>

definition createPost ::
  "string option \<Rightarrow> string \<Rightarrow> string \<Rightarrow> string \<Rightarrow> postData \<Rightarrow> state
    \<Rightarrow> (failure + post) \<times> state" where
  "createPost actor now rnd authorId data st =
     (if \<not> canManage actor authorId st then (Inl PermissionDenied, st)
      else
        case resolveGalleryCtx (pd_galleryId data) (pd_galleryOwnerId data) st of
          (None, st1) \<Rightarrow> (Inl InvalidGallery, st1)
        | (Some (gOwner, g), st1) \<Rightarrow>
            if g = Undefined
               \<or> truthy (galleryDeletedAt st1 (orString (pd_galleryId data) []) g)
            then (Inl InvalidGallery, st1)
            else
              let st2 = ensureUserData authorId st1;
                  pid = safeId ''p_'' rnd;
                  p = \<lparr>p_id = pid, p_galleryOwnerId = Some gOwner, p_galleryId = galleryIdOf g,
                       p_title = trim (orString (pd_title data) defaultPostTitle),
                       p_content = trim (orString (pd_content data) []),
                       p_attachments = [],
                       p_createdAt = now, p_updatedAt = now, p_deletedAt = None,
                       p_deletedByGallery = False\<rparr>
              in (Inr p, setPost authorId pid p st2))"

definition updatePost ::
  "string option \<Rightarrow> string \<Rightarrow> string \<Rightarrow> string \<Rightarrow> postData \<Rightarrow> state
    \<Rightarrow> (failure + unit) \<times> state" where
  "updatePost actor now authorId pid patch st =
     (if \<not> canManage actor authorId st then (Inl PermissionDenied, st)
      else
        let st1 = ensureUserData authorId st in
        case postAt st1 authorId pid of
          Undefined \<Rightarrow> (Inl Refused, st1)
        | Own p0 \<Rightarrow>
            if truthy (p_deletedAt p0) then (Inl Refused, st1)
            else
              (Inr (),
               modifyPost authorId pid
                 (\<lambda>p. p\<lparr>p_title := trim (orDefault (pd_title patch) (p_title p)),
                         p_content := trim (orDefault (pd_content patch) (p_content p)),
                         p_updatedAt := now\<rparr>)
                 st1)
        | Inherited \<Rightarrow>
            if truthy (b_deletedAt (builtinAt st1 pid)) then (Inl Refused, st1)
            else
              (Inr (),
               modifyBuiltin pid
                 (\<lambda>b. b\<lparr>b_title := Some (trim (orDefault (pd_title patch) (jsString (b_title b)))),
                         b_content :=
                           Some (trim (orDefault (pd_content patch) (jsString (b_content b)))),
                         b_updatedAt := Some now\<rparr>)
                 st1))"

definition deletePostSoft ::
  "string option \<Rightarrow> string \<Rightarrow> string \<Rightarrow> string \<Rightarrow> state \<Rightarrow> (failure + unit) \<times> state" where
  "deletePostSoft actor now authorId pid st =
     (if \<not> canManage actor authorId st then (Inl PermissionDenied, st)
      else
        let st1 = ensureUserData authorId st in
        case postAt st1 authorId pid of
          Undefined \<Rightarrow> (Inl Refused, st1)
        | Own p0 \<Rightarrow>
            if truthy (p_deletedAt p0) then (Inl Refused, st1)
            else
              (Inr (),
               modifyPost authorId pid
                 (\<lambda>p. p\<lparr>p_deletedAt := Some now, p_deletedByGallery := False,
                         p_updatedAt := now\<rparr>)
                 st1)
        | Inherited \<Rightarrow>
            if truthy (b_deletedAt (builtinAt st1 pid)) then (Inl Refused, st1)
            else
              (Inr (),
               modifyBuiltin pid
                 (\<lambda>b. b\<lparr>b_deletedAt := Some now, b_deletedByGallery := Some False,
                         b_updatedAt := Some now\<rparr>)
                 st1))"

text \<open>For an inherited member \<^verbatim>\<open>p.galleryId\<close> and \<^verbatim>\<open>p.galleryOwnerId\<close> are
  \<^verbatim>\<open>undefined\<close>.\<close>

definition restorePost ::
  "string option \<Rightarrow> string \<Rightarrow> string \<Rightarrow> string \<Rightarrow> state \<Rightarrow> (failure + unit) \<times> state" where
  "restorePost actor now authorId pid st =
     (if \<not> canManage actor authorId st then (Inl PermissionDenied, st)
      else
        let st1 = ensureUserData authorId st in
        case postAt st1 authorId pid of
          Undefined \<Rightarrow> (Inl Refused, st1)
        | Own p0 \<Rightarrow>
            if \<not> truthy (p_deletedAt p0) then (Inl Refused, st1)
            else
              (case resolveGalleryCtx (p_galleryId p0) (p_galleryOwnerId p0) st1 of
                 (None, st2) \<Rightarrow> (Inl ParentUnavailable, st2)
               | (Some (gOwner, g), st2) \<Rightarrow>
                   if g = Undefined
                      \<or> truthy (galleryDeletedAt st2 (orString (p_galleryId p0) []) g)
                   then (Inl ParentUnavailable, st2)
                   else
                     (Inr (),
                      modifyPost authorId pid
                        (\<lambda>p. p\<lparr>p_deletedAt := None, p_deletedByGallery := False,
                                p_updatedAt := now\<rparr>)
                        st2))
        | Inherited \<Rightarrow>
            if \<not> truthy (b_deletedAt (builtinAt st1 pid)) then (Inl Refused, st1)
            else
              (case resolveGalleryCtx None None st1 of
                 (None, st2) \<Rightarrow> (Inl ParentUnavailable, st2)
               | (Some (gOwner, g), st2) \<Rightarrow>
                   if g = Undefined \<or> truthy (galleryDeletedAt st2 [] g)
                   then (Inl ParentUnavailable, st2)
                   else
                     (Inr (),
                      modifyBuiltin pid
                        (\<lambda>b. b\<lparr>b_deletedAt := None, b_deletedByGallery := Some False,
                                b_updatedAt := Some now\<rparr>)
                        st2)))"

definition purgePost ::
  "string option \<Rightarrow> string \<Rightarrow> string \<Rightarrow> state \<Rightarrow> (failure + unit) \<times> state" where
  "purgePost actor authorId pid st =
     (if \<not> canManage actor authorId st then (Inl PermissionDenied, st)
      else
        let st1 = ensureUserData authorId st in
        if postAt st1 authorId pid = Undefined then (Inl Refused, st1)
        else
          let st2 = purgeCommentsLoop (\<lambda>postId. postId = pid) (map fst (userData st1)) st1
          in (Inr (), deletePost authorId pid st2))"

subsection \<open>Comments\<close>

definition setComment :: "string \<Rightarrow> string \<Rightarrow> comment \<Rightarrow> state \<Rightarrow> state" where
  "setComment authorId cid c st =
     modifyPartition authorId
       (\<lambda>ud. ud\<lparr>comments := map_option (AList.update cid c) (comments ud)\<rparr>) st"

definition createComment ::
  "string option \<Rightarrow> string \<Rightarrow> string \<Rightarrow> string \<Rightarrow> string \<Rightarrow> string option \<Rightarrow> state
    \<Rightarrow> (failure + comment) \<times> state" where
  "createComment actor now rnd authorId postId text st =
     (if \<not> canManage actor authorId st then (Inl PermissionDenied, st)
      else
        case resolvePostCtx (Some postId) None st of
          (None, st1) \<Rightarrow> (Inl InvalidPost, st1)
        | (Some (pOwner, p), st1) \<Rightarrow>
            if p = Undefined \<or> truthy (postDeletedAt st1 postId p) then (Inl InvalidPost, st1)
            else
              let st2 = ensureUserData authorId st1;
                  cid = safeId ''c_'' rnd;
                  c = \<lparr>c_id = cid, c_postId = postId,
                       c_text = trim (orString text []),
                       c_createdAt = now, c_updatedAt = now, c_deletedAt = None\<rparr>
              in (Inr c, setComment authorId cid c st2))"

definition updateComment ::
  "string option \<Rightarrow> string \<Rightarrow> string \<Rightarrow> string \<Rightarrow> string option \<Rightarrow> state
    \<Rightarrow> (failure + unit) \<times> state" where
  "updateComment actor now authorId cid patchText st =
     (if \<not> canManage actor authorId st then (Inl PermissionDenied, st)
      else
        let st1 = ensureUserData authorId st in
        case commentAt st1 authorId cid of
          Undefined \<Rightarrow> (Inl Refused, st1)
        | Own c0 \<Rightarrow>
            if truthy (c_deletedAt c0) then (Inl Refused, st1)
            else
              (Inr (),
               modifyComment authorId cid
                 (\<lambda>c. c\<lparr>c_text := trim (orDefault patchText (c_text c)), c_updatedAt := now\<rparr>)
                 st1)
        | Inherited \<Rightarrow>
            if truthy (b_deletedAt (builtinAt st1 cid)) then (Inl Refused, st1)
            else
              (Inr (),
               modifyBuiltin cid
                 (\<lambda>b. b\<lparr>b_text := Some (trim (orDefault patchText (jsString (b_text b)))),
                         b_updatedAt := Some now\<rparr>)
                 st1))"

definition deleteCommentSoft ::
  "string option \<Rightarrow> string \<Rightarrow> string \<Rightarrow> string \<Rightarrow> state \<Rightarrow> (failure + unit) \<times> state" where
  "deleteCommentSoft actor now authorId cid st =
     (if \<not> canManage actor authorId st then (Inl PermissionDenied, st)
      else
        let st1 = ensureUserData authorId st in
        case commentAt st1 authorId cid of
          Undefined \<Rightarrow> (Inl Refused, st1)
        | Own c0 \<Rightarrow>
            if truthy (c_deletedAt c0) then (Inl Refused, st1)
            else
              (Inr (),
               modifyComment authorId cid
                 (\<lambda>c. c\<lparr>c_deletedAt := Some now, c_updatedAt := now\<rparr>)
                 st1)
        | Inherited \<Rightarrow>
            if truthy (b_deletedAt (builtinAt st1 cid)) then (Inl Refused, st1)
            else
              (Inr (),
               modifyBuiltin cid
                 (\<lambda>b. b\<lparr>b_deletedAt := Some now, b_updatedAt := Some now\<rparr>)
                 st1))"

section \<open>Accounts\<close>

text \<open>
  \<^verbatim>\<open>state.usernameIndex?.[username]\<close> reads a plain object by a name the user
  typed; a member of \<^verbatim>\<open>Object.prototype\<close> is a function or an object, hence truthy.
\<close>

fun jsTruthy :: "string jsval \<Rightarrow> bool" where
  "jsTruthy Undefined = False"
| "jsTruthy (Own v) = (v \<noteq> [])"
| "jsTruthy Inherited = True"

text \<open>
  The platform functions are parameters: \<open>kdf password salt\<close> is the 32 bytes of
  PBKDF2 (SHA-256, 120000 rounds), \<open>btoa\<close> and \<open>atob\<close> are base64 encoding and
  decoding of a byte string (\<^verbatim>\<open>atob\<close> throws on text that is not base64: \<open>None\<close>).
\<close>

definition bytesToB64 :: "(string \<Rightarrow> string) \<Rightarrow> string \<Rightarrow> string" where
  "bytesToB64 btoa bytes = btoa bytes"

definition b64ToBytes :: "(string \<Rightarrow> string option) \<Rightarrow> string \<Rightarrow> string option" where
  "b64ToBytes atob b64 = atob b64"

definition deriveHashB64 ::
  "(string \<Rightarrow> string \<Rightarrow> string) \<Rightarrow> (string \<Rightarrow> string) \<Rightarrow> string \<Rightarrow> string \<Rightarrow> string" where
  "deriveHashB64 kdf btoa password saltBytes = bytesToB64 btoa (kdf password saltBytes)"

text \<open>\<^verbatim>\<open>login\<close> returns the id it stores in \<^verbatim>\<open>viewState.userId\<close>.  An inherited
  member used as the key of \<^verbatim>\<open>state.users\<close> is converted to text that is no
  identifier, so that lookup finds nothing.\<close>

definition login ::
  "(string \<Rightarrow> string \<Rightarrow> string) \<Rightarrow> (string \<Rightarrow> string) \<Rightarrow> (string \<Rightarrow> string option)
    \<Rightarrow> string \<Rightarrow> string \<Rightarrow> state \<Rightarrow> (failure + string) \<times> state" where
  "login kdf btoa atob username password st =
     (case propertyGet (usernameIndex st) username of
        Undefined \<Rightarrow> (Inl InvalidCredentials, st)
      | Inherited \<Rightarrow> (Inl InvalidCredentials, st)
      | Own uid \<Rightarrow>
          if uid = [] then (Inl InvalidCredentials, st)
          else
            (case map_of (users st) uid of
               None \<Rightarrow> (Inl InvalidCredentials, st)
             | Some u \<Rightarrow>
                 (case b64ToBytes atob (u_saltB64 u) of
                    None \<Rightarrow> (Inl Aborted, st)
                  | Some salt \<Rightarrow>
                      if deriveHashB64 kdf btoa password salt \<noteq> u_hashB64 u
                      then (Inl InvalidCredentials, st)
                      else (Inr uid, ensureUserData uid st))))"

definition signup ::
  "(string \<Rightarrow> string \<Rightarrow> string) \<Rightarrow> (string \<Rightarrow> string) \<Rightarrow> string \<Rightarrow> string \<Rightarrow> string
    \<Rightarrow> string \<Rightarrow> string \<Rightarrow> state \<Rightarrow> (failure + unit) \<times> state" where
  "signup kdf btoa now rnd salt username password st =
     (if \<not> isValidUsername username then (Inl InvalidUsername, st)
      else if jsTruthy (propertyGet (usernameIndex st) username) then (Inl DuplicateUsername, st)
      else
        let hashB64 = deriveHashB64 kdf btoa password salt;
            userId = safeId ''u_'' rnd;
            st1 = st\<lparr>users :=
                       AList.update userId
                         \<lparr>u_userId = userId, u_username = username,
                          u_saltB64 = bytesToB64 btoa salt, u_hashB64 = hashB64,
                          u_createdAt = now, u_role = ''user''\<rparr>
                         (users st)\<rparr>;
            st2 = st1\<lparr>usernameIndex := AList.update username userId (usernameIndex st1)\<rparr>
        in (Inr (), ensureUserData userId st2))"

text \<open>The start-up block \<^verbatim>\<open>ensureAdminAndRemoveDemo\<close>.\<close>

definition ensureAdminAndRemoveDemo ::
  "(string \<Rightarrow> string \<Rightarrow> string) \<Rightarrow> (string \<Rightarrow> string) \<Rightarrow> string \<Rightarrow> string \<Rightarrow> string
    \<Rightarrow> state \<Rightarrow> state" where
  "ensureAdminAndRemoveDemo kdf btoa now rnd salt st =
     (let st1 =
            (case propertyGet (usernameIndex st) ''demo'' of
               Own demoId \<Rightarrow>
                 if demoId = [] then st
                 else st\<lparr>usernameIndex := AList.delete ''demo'' (usernameIndex st),
                         users := AList.delete demoId (users st),
                         userData := AList.delete demoId (userData st)\<rparr>
             | _ \<Rightarrow> st)
      in
        case (case propertyGet (usernameIndex st1) ''admin'' of
                Own adminId \<Rightarrow>
                  if adminId \<noteq> [] \<and> map_of (users st1) adminId \<noteq> None then Some adminId else None
              | _ \<Rightarrow> None) of
          Some adminId \<Rightarrow>
            ensureUserData adminId
              (st1\<lparr>users := AList.map_entry adminId (\<lambda>u. u\<lparr>u_role := ''admin''\<rparr>) (users st1)\<rparr>)
        | None \<Rightarrow>
            let hashB64 = deriveHashB64 kdf btoa ''qwer0987@'' salt;
                userId = safeId ''u_'' rnd;
                st2 = st1\<lparr>users :=
                           AList.update userId
                             \<lparr>u_userId = userId, u_username = ''admin'',
                              u_saltB64 = bytesToB64 btoa salt, u_hashB64 = hashB64,
                              u_createdAt = now, u_role = ''admin''\<rparr>
                             (users st1)\<rparr>;
                st3 = st2\<lparr>usernameIndex := AList.update ''admin'' userId (usernameIndex st2)\<rparr>
            in ensureUserData userId st3)"

section \<open>Well-formed documents\<close>

text \<open>The keys of a JavaScript object are distinct; \<open>wfState\<close> says so for the
  partitions and for the three dictionaries of every partition.\<close>

definition wfPartition :: "partition \<Rightarrow> bool" where
  "wfPartition ud =
     (distinct (map fst (orDefault (galleries ud) []))
      \<and> distinct (map fst (orDefault (posts ud) []))
      \<and> distinct (map fst (orDefault (comments ud) [])))"

definition wfState :: "state \<Rightarrow> bool" where
  "wfState st =
     (distinct (map fst (userData st)) \<and> list_all (\<lambda>(a, ud). wfPartition ud) (userData st))"

text \<open>The content of the document: the gallery, post or comment stored under a key
  in the partition stored under an id (own properties only; the members of
  \<^verbatim>\<open>Object.prototype\<close> are no part of the document).\<close>

definition storedGallery :: "state \<Rightarrow> string \<Rightarrow> string \<Rightarrow> gallery option" where
  "storedGallery st ownerId gid =
     (case map_of (userData st) ownerId of
        None \<Rightarrow> None
      | Some ud \<Rightarrow> map_of (orDefault (galleries ud) []) gid)"

definition storedPost :: "state \<Rightarrow> string \<Rightarrow> string \<Rightarrow> post option" where
  "storedPost st authorId pid =
     (case map_of (userData st) authorId of
        None \<Rightarrow> None
      | Some ud \<Rightarrow> map_of (orDefault (posts ud) []) pid)"

definition storedComment :: "state \<Rightarrow> string \<Rightarrow> string \<Rightarrow> comment option" where
  "storedComment st authorId cid =
     (case map_of (userData st) authorId of
        None \<Rightarrow> None
      | Some ud \<Rightarrow> map_of (orDefault (comments ud) []) cid)"

text \<open>The galleries of the object \<^verbatim>\<open>state.userData[a]\<close>, a stored partition or a member
  of \<^verbatim>\<open>Object.prototype\<close>; \<open>galleryFound\<close> is what \<^verbatim>\<open>ensureUserData(a).galleries?.[gid]\<close>
  reads; likewise for posts and comments.\<close>

definition galleriesIn :: "state \<Rightarrow> string \<Rightarrow> gallery obj" where
  "galleriesIn st a = (case partitionOf st a of None \<Rightarrow> [] | Some ud \<Rightarrow> orDefault (galleries ud) [])"

definition ownGallery :: "state \<Rightarrow> string \<Rightarrow> string \<Rightarrow> gallery option" where
  "ownGallery st a gid = map_of (galleriesIn st a) gid"

definition galleryFound :: "state \<Rightarrow> string \<Rightarrow> string \<Rightarrow> gallery jsval" where
  "galleryFound st a gid = propertyGet (galleriesIn st a) gid"

definition postsIn :: "state \<Rightarrow> string \<Rightarrow> post obj" where
  "postsIn st a = (case partitionOf st a of None \<Rightarrow> [] | Some ud \<Rightarrow> orDefault (posts ud) [])"

definition postFound :: "state \<Rightarrow> string \<Rightarrow> string \<Rightarrow> post jsval" where
  "postFound st a pid = propertyGet (postsIn st a) pid"

definition commentsIn :: "state \<Rightarrow> string \<Rightarrow> comment obj" where
  "commentsIn st a = (case partitionOf st a of None \<Rightarrow> [] | Some ud \<Rightarrow> orDefault (comments ud) [])"

definition commentFound :: "state \<Rightarrow> string \<Rightarrow> string \<Rightarrow> comment jsval" where
  "commentFound st a cid = propertyGet (commentsIn st a) cid"



definition postsOf :: "state \<Rightarrow> string \<Rightarrow> post obj" where
  "postsOf st a = orDefault (posts (orDefault (map_of (userData st) a) defaultPartition)) []"

definition commentsOf :: "state \<Rightarrow> string \<Rightarrow> comment obj" where
  "commentsOf st a = orDefault (comments (orDefault (map_of (userData st) a) defaultPartition)) []"

definition entryLocs :: "postEntry list \<Rightarrow> (string \<times> string) set" where
  "entryLocs es = (\<lambda>e. (e_ownerId e, e_key e)) ` set es"

text \<open>A post of author \<open>a\<close> is under gallery \<open>(ownerId, gid)\<close>: the test of
  \<^verbatim>\<open>listPostsInGallery\<close>.\<close>

definition postUnder :: "string \<Rightarrow> string \<Rightarrow> string \<Rightarrow> post \<Rightarrow> bool" where
  "postUnder ownerId gid a p = (galleryOwnerOf a p = ownerId \<and> p_galleryId p = Some gid)"

text \<open>A partition is normalised when \<^verbatim>\<open>ensureUserData\<close> would not change it: all
  its fields are present and the settings have their three values.\<close>

definition normalized :: "state \<Rightarrow> string \<Rightarrow> bool" where
  "normalized st a =
     (case map_of (userData st) a of None \<Rightarrow> False | Some ud \<Rightarrow> normalizePartition ud = ud)"

section \<open>The mutating commands as one step function\<close>

text \<open>A command names one of the thirteen mutating functions with its arguments;
  \<open>target\<close> is the partition id it passes to \<^verbatim>\<open>canManage\<close>; \<open>exec\<close> runs it and
  keeps the failure, if any.\<close>

datatype command =
  CreateGallery string string galleryData
  | UpdateGallery string string galleryData
  | DeleteGallerySoft string string
  | RestoreGallery string string
  | PurgeGallery string string
  | CreatePost string string postData
  | UpdatePost string string postData
  | DeletePostSoft string string
  | RestorePost string string
  | PurgePost string string
  | CreateComment string string string "string option"
  | UpdateComment string string "string option"
  | DeleteCommentSoft string string

fun target :: "command \<Rightarrow> string" where
  "target (CreateGallery rnd ownerId data) = ownerId"
| "target (UpdateGallery ownerId gid patch) = ownerId"
| "target (DeleteGallerySoft ownerId gid) = ownerId"
| "target (RestoreGallery ownerId gid) = ownerId"
| "target (PurgeGallery ownerId gid) = ownerId"
| "target (CreatePost rnd authorId data) = authorId"
| "target (UpdatePost authorId pid patch) = authorId"
| "target (DeletePostSoft authorId pid) = authorId"
| "target (RestorePost authorId pid) = authorId"
| "target (PurgePost authorId pid) = authorId"
| "target (CreateComment rnd authorId postId text) = authorId"
| "target (UpdateComment authorId cid patchText) = authorId"
| "target (DeleteCommentSoft authorId cid) = authorId"

definition failureOf :: "(failure + 'a) \<times> state \<Rightarrow> failure option \<times> state" where
  "failureOf x = (case x of (Inl e, st) \<Rightarrow> (Some e, st) | (Inr v, st) \<Rightarrow> (None, st))"

fun exec :: "string option \<Rightarrow> string \<Rightarrow> command \<Rightarrow> state \<Rightarrow> failure option \<times> state" where
  "exec actor now (CreateGallery rnd ownerId data) st =
     failureOf (createGallery actor now rnd ownerId data st)"
| "exec actor now (UpdateGallery ownerId gid patch) st =
     failureOf (updateGallery actor now ownerId gid patch st)"
| "exec actor now (DeleteGallerySoft ownerId gid) st =
     failureOf (deleteGallerySoft actor now ownerId gid st)"
| "exec actor now (RestoreGallery ownerId gid) st =
     failureOf (restoreGallery actor now ownerId gid st)"
| "exec actor now (PurgeGallery ownerId gid) st =
     failureOf (purgeGallery actor ownerId gid st)"
| "exec actor now (CreatePost rnd authorId data) st =
     failureOf (createPost actor now rnd authorId data st)"
| "exec actor now (UpdatePost authorId pid patch) st =
     failureOf (updatePost actor now authorId pid patch st)"
| "exec actor now (DeletePostSoft authorId pid) st =
     failureOf (deletePostSoft actor now authorId pid st)"
| "exec actor now (RestorePost authorId pid) st =
     failureOf (restorePost actor now authorId pid st)"
| "exec actor now (PurgePost authorId pid) st =
     failureOf (purgePost actor authorId pid st)"
| "exec actor now (CreateComment rnd authorId postId text) st =
     failureOf (createComment actor now rnd authorId postId text st)"
| "exec actor now (UpdateComment authorId cid patchText) st =
     failureOf (updateComment actor now authorId cid patchText st)"
| "exec actor now (DeleteCommentSoft authorId cid) st =
     failureOf (deleteCommentSoft actor now authorId cid st)"

section \<open>A sample document\<close>

text \<open>Alice owns the gallery \<open>g_trip\<close>; Bob wrote two posts in it (the second one he
  deleted himself) and one post in his own gallery, stored without
  \<^verbatim>\<open>galleryOwnerId\<close>; Carol commented, and her partition lacks some fields; Root is
  an administrator.\<close>

definition demoUsers :: "user obj" where
  "demoUsers =
     [(''u_alice'', \<lparr>u_userId = ''u_alice'', u_username = ''alice'', u_saltB64 = ''c2FsdEE='',
                     u_hashB64 = ''aGFzaEE='', u_createdAt = ''2026-01-01T00:00:00.000Z'',
                     u_role = ''user''\<rparr>),
      (''u_bob'', \<lparr>u_userId = ''u_bob'', u_username = ''bob'', u_saltB64 = ''c2FsdEI='',
                   u_hashB64 = ''aGFzaEI='', u_createdAt = ''2026-01-01T00:00:00.000Z'',
                   u_role = ''user''\<rparr>),
      (''u_carol'', \<lparr>u_userId = ''u_carol'', u_username = ''carol'', u_saltB64 = ''c2FsdEM='',
                     u_hashB64 = ''aGFzaEM='', u_createdAt = ''2026-01-01T00:00:00.000Z'',
                     u_role = ''user''\<rparr>),
      (''u_root'', \<lparr>u_userId = ''u_root'', u_username = ''admin'', u_saltB64 = ''c2FsdFI='',
                    u_hashB64 = ''aGFzaFI='', u_createdAt = ''2026-01-01T00:00:00.000Z'',
                    u_role = ''admin''\<rparr>)]"

definition demoIndex :: "string obj" where
  "demoIndex =
     [(''alice'', ''u_alice''), (''bob'', ''u_bob''), (''carol'', ''u_carol''),
      (''admin'', ''u_root'')]"

definition demoTrip :: gallery where
  "demoTrip =
     \<lparr>g_id = ''g_trip'', g_title = ''Trip'', g_desc = [], g_icon = ''T'', g_color = ''#6EE7FF'',
      g_pinned = False, g_createdAt = ''2026-01-02T00:00:00.000Z'',
      g_updatedAt = ''2026-01-02T00:00:00.000Z'', g_deletedAt = None\<rparr>"

definition demoBobGallery :: gallery where
  "demoBobGallery =
     \<lparr>g_id = ''g_bob'', g_title = ''Notes'', g_desc = [], g_icon = ''N'', g_color = ''#6EE7FF'',
      g_pinned = True, g_createdAt = ''2026-01-02T00:00:00.000Z'',
      g_updatedAt = ''2026-01-02T00:00:00.000Z'', g_deletedAt = None\<rparr>"

definition demoDay1 :: post where
  "demoDay1 =
     \<lparr>p_id = ''p_day1'', p_galleryOwnerId = Some ''u_alice'', p_galleryId = Some ''g_trip'',
      p_title = ''Day1'', p_content = ''first'', p_attachments = [],
      p_createdAt = ''2026-01-03T00:00:00.000Z'', p_updatedAt = ''2026-01-03T00:00:00.000Z'',
      p_deletedAt = None, p_deletedByGallery = False\<rparr>"

definition demoDay2 :: post where
  "demoDay2 =
     \<lparr>p_id = ''p_day2'', p_galleryOwnerId = Some ''u_alice'', p_galleryId = Some ''g_trip'',
      p_title = ''Day2'', p_content = ''second'', p_attachments = [],
      p_createdAt = ''2026-01-03T00:00:00.000Z'', p_updatedAt = ''2026-01-04T00:00:00.000Z'',
      p_deletedAt = Some ''2026-01-04T00:00:00.000Z'', p_deletedByGallery = False\<rparr>"

definition demoNote :: post where
  "demoNote =
     \<lparr>p_id = ''p_note'', p_galleryOwnerId = None, p_galleryId = Some ''g_bob'',
      p_title = ''Note'', p_content = ''mine'', p_attachments = [],
      p_createdAt = ''2026-01-03T00:00:00.000Z'', p_updatedAt = ''2026-01-03T00:00:00.000Z'',
      p_deletedAt = None, p_deletedByGallery = False\<rparr>"

definition demoComment1 :: comment where
  "demoComment1 =
     \<lparr>c_id = ''c_1'', c_postId = ''p_day1'', c_text = ''nice'',
      c_createdAt = ''2026-01-05T00:00:00.000Z'', c_updatedAt = ''2026-01-05T00:00:00.000Z'',
      c_deletedAt = None\<rparr>"

definition demoComment2 :: comment where
  "demoComment2 =
     \<lparr>c_id = ''c_2'', c_postId = ''p_note'', c_text = ''ok'',
      c_createdAt = ''2026-01-05T00:00:00.000Z'', c_updatedAt = ''2026-01-05T00:00:00.000Z'',
      c_deletedAt = None\<rparr>"

definition demoState :: state where
  "demoState =
     \<lparr>version = 2, users = demoUsers, usernameIndex = demoIndex,
      userData =
        [(''u_alice'',
          \<lparr>settings = Some defaultSettings, galleries = Some [(''g_trip'', demoTrip)],
           posts = Some [], comments = Some [], media = Some []\<rparr>),
         (''u_bob'',
          \<lparr>settings = Some defaultSettings, galleries = Some [(''g_bob'', demoBobGallery)],
           posts = Some [(''p_day1'', demoDay1), (''p_day2'', demoDay2), (''p_note'', demoNote)],
           comments = Some [], media = Some []\<rparr>),
         (''u_carol'',
          \<lparr>settings = None, galleries = None, posts = Some [],
           comments = Some [(''c_1'', demoComment1), (''c_2'', demoComment2)],
           media = None\<rparr>)],
      builtins = []\<rparr>"

text \<open>The same document after Alice deleted \<open>g_trip\<close>.\<close>

definition trashedState :: state where
  "trashedState =
     \<lparr>version = 2, users = demoUsers, usernameIndex = demoIndex,
      userData =
        [(''u_alice'',
          \<lparr>settings = Some defaultSettings,
           galleries = Some [(''g_trip'', demoTrip\<lparr>g_deletedAt := Some ''2026-01-06T00:00:00.000Z''\<rparr>)],
           posts = Some [], comments = Some [], media = Some []\<rparr>),
         (''u_bob'',
          \<lparr>settings = Some defaultSettings, galleries = Some [(''g_bob'', demoBobGallery)],
           posts = Some [(''p_day1'', demoDay1\<lparr>p_deletedAt := Some ''2026-01-06T00:00:00.000Z'',
                                                 p_deletedByGallery := True\<rparr>),
                         (''p_day2'', demoDay2), (''p_note'', demoNote)],
           comments = Some [], media = Some []\<rparr>),
         (''u_carol'',
          \<lparr>settings = None, galleries = None, posts = Some [],
           comments = Some [(''c_1'', demoComment1), (''c_2'', demoComment2)],
           media = None\<rparr>)],
      builtins = []\<rparr>"


text \<open>The partition \<^verbatim>\<open>resolveGalleryCtx\<close> settles on: the hinted one if it holds the
  gallery, else the first partition in key order that does.\<close>

definition galleryOwnerFound :: "state \<Rightarrow> string \<Rightarrow> string option \<Rightarrow> string option" where
  "galleryOwnerFound st gid hint =
     (if truthy hint \<and> galleryFound st (orString hint []) gid \<noteq> Undefined
      then Some (orString hint [])
      else find (\<lambda>a. galleryFound st a gid \<noteq> Undefined) (map fst (userData st)))"

section \<open>Reachable documents\<close>

text \<open>
  The identifiers come from \<^verbatim>\<open>safeId\<close>, twelve random bytes: a new identifier is
  taken to be fresh, that is, to occur nowhere in the document (\<open>fresh\<close>).  A
  document is reachable when it results from the empty document of \<^verbatim>\<open>loadState\<close> by
  the mutating commands (any acting user, a non-empty timestamp, fresh identifiers),
  \<^verbatim>\<open>signup\<close>, \<^verbatim>\<open>login\<close> and the start-up block.
\<close>

definition allGalleryKeys :: "state \<Rightarrow> string list" where
  "allGalleryKeys st =
     concat (map (\<lambda>(a, ud). map fst (orDefault (galleries ud) [])) (userData st))
     @ concat (map (\<lambda>(a, b). map fst (orDefault (galleries (b_data b)) [])) (builtins st))"

definition allPostKeys :: "state \<Rightarrow> string list" where
  "allPostKeys st =
     concat (map (\<lambda>(a, ud). map fst (orDefault (posts ud) [])) (userData st))"

definition allCommentKeys :: "state \<Rightarrow> string list" where
  "allCommentKeys st =
     concat (map (\<lambda>(a, ud). map fst (orDefault (comments ud) [])) (userData st))"

definition referencedGalleryIds :: "state \<Rightarrow> string option list" where
  "referencedGalleryIds st =
     concat (map (\<lambda>(a, ud). map (\<lambda>(k, p). p_galleryId p) (orDefault (posts ud) [])) (userData st))"

fun fresh :: "state \<Rightarrow> command \<Rightarrow> bool" where
  "fresh st (CreateGallery rnd ownerId data) =
     (safeId ''g_'' rnd \<notin> set (allGalleryKeys st)
      \<and> Some (safeId ''g_'' rnd) \<notin> set (referencedGalleryIds st))"
| "fresh st (CreatePost rnd authorId data) = (safeId ''p_'' rnd \<notin> set (allPostKeys st))"
| "fresh st (CreateComment rnd authorId postId text) =
     (safeId ''c_'' rnd \<notin> set (allCommentKeys st))"
| "fresh st c = True"

inductive reachable :: "state \<Rightarrow> bool" where
  initial: "reachable emptyState"
| command: "reachable st \<Longrightarrow> now \<noteq> [] \<Longrightarrow> fresh st c \<Longrightarrow> reachable (snd (exec actor now c st))"
| signup: "reachable st \<Longrightarrow> reachable (snd (signup kdf btoa now rnd salt username password st))"
| login: "reachable st \<Longrightarrow> reachable (snd (login kdf btoa atob username password st))"
| startup: "reachable st \<Longrightarrow> reachable (ensureAdminAndRemoveDemo kdf btoa now rnd salt st)"

text \<open>The invariant behind the flag: a flagged post is tombstoned, and every gallery
  kept under its \<^verbatim>\<open>galleryId\<close>, in a stored partition or on a member of
  \<^verbatim>\<open>Object.prototype\<close>, is tombstoned and is the one the post is listed under; gallery
  keys are not shared between partitions; and no stored partition, no \<^verbatim>\<open>id\<close> of a
  gallery and no \<^verbatim>\<open>galleryId\<close> of a stored post is the name of a member of
  \<^verbatim>\<open>Object.prototype\<close>.\<close>

definition flagInv :: "state \<Rightarrow> bool" where
  "flagInv st =
     (\<forall>a k p. storedPost st a k = Some p \<and> p_deletedByGallery p \<longrightarrow>
        truthy (p_deletedAt p)
        \<and> (\<forall>x b g. p_galleryId p = Some x \<and> ownGallery st b x = Some g \<longrightarrow>
              truthy (g_deletedAt g) \<and> b = galleryOwnerOf a p))"

definition galleryKeysUnique :: "state \<Rightarrow> bool" where
  "galleryKeysUnique st =
     (\<forall>a b k. ownGallery st a k \<noteq> None \<and> ownGallery st b k \<noteq> None \<longrightarrow> a = b)"

definition idsPlain :: "state \<Rightarrow> bool" where
  "idsPlain st =
     ((\<forall>a. a \<in> set (map fst (userData st)) \<longrightarrow> a \<notin> set objectPrototypeKeys)
      \<and> (\<forall>a k g. ownGallery st a k = Some g \<longrightarrow> g_id g \<notin> set objectPrototypeKeys)
      \<and> (\<forall>a k p x. storedPost st a k = Some p \<and> p_galleryId p = Some x
            \<longrightarrow> x \<notin> set objectPrototypeKeys))"

definition inv :: "state \<Rightarrow> bool" where
  "inv st = (wfState st \<and> flagInv st \<and> galleryKeysUnique st \<and> idsPlain st)"

definition sameEntities :: "state \<Rightarrow> state \<Rightarrow> bool" where
  "sameEntities st st' =
     ((\<forall>a k. storedGallery st' a k = storedGallery st a k) \<and> (\<forall>a k. storedPost st' a k = storedPost st a k))"

definition flagsKept :: "state \<Rightarrow> state \<Rightarrow> bool" where
  "flagsKept st st' =
     (\<forall>a k p p'. storedPost st a k = Some p \<and> p_deletedByGallery p \<and> storedPost st' a k = Some p'
        \<longrightarrow> p_deletedByGallery p')"

section \<open>A sample run\<close>

text \<open>From the empty document: user \<open>u_a\<close> creates a gallery, user \<open>u_b\<close> posts in
  it, \<open>u_a\<close> deletes the gallery.\<close>

definition runGallery :: state where
  "runGallery =
     snd (exec (Some ''u_a'') ''2026-02-01T00:00:00.000Z''
            (CreateGallery ''1'' ''u_a''
               \<lparr>gd_title = Some ''Trip'', gd_desc = None, gd_icon = Some ''T'', gd_color = None,
                gd_pinned = None\<rparr>)
            emptyState)"

definition runPost :: state where
  "runPost =
     snd (exec (Some ''u_b'') ''2026-02-02T00:00:00.000Z''
            (CreatePost ''1'' ''u_b''
               \<lparr>pd_galleryId = Some ''g_1'', pd_galleryOwnerId = Some ''u_a'',
                pd_title = Some ''Day1'', pd_content = None\<rparr>)
            runGallery)"

definition runDeleted :: state where
  "runDeleted =
     snd (exec (Some ''u_a'') ''2026-02-03T00:00:00.000Z'' (DeleteGallerySoft ''u_a'' ''g_1'')
            runPost)"

definition runFlaggedPost :: post where
  "runFlaggedPost =
     \<lparr>p_id = ''p_1'', p_galleryOwnerId = Some ''u_a'', p_galleryId = Some ''g_1'',
      p_title = ''Day1'', p_content = [], p_attachments = [],
      p_createdAt = ''2026-02-02T00:00:00.000Z'', p_updatedAt = ''2026-02-03T00:00:00.000Z'',
      p_deletedAt = Some ''2026-02-03T00:00:00.000Z'', p_deletedByGallery = True\<rparr>"

section \<open>Properties\<close>

subsection \<open>Partitions and stored objects\<close>

lemma orDefault_simps [simp]: "orDefault None d = d" "orDefault (Some v) d = v"
  by (simp_all add: orDefault_def)

lemma propertyGet_Own: "propertyGet d k = Own v \<longleftrightarrow> map_of d k = Some v"
  by (simp add: propertyGet_def split: option.splits)

lemma propertyGet_Undefined:
  "propertyGet d k = Undefined \<longleftrightarrow> map_of d k = None \<and> k \<notin> set objectPrototypeKeys"
  by (simp add: propertyGet_def split: option.splits)

lemma propertyGet_Inherited:
  "propertyGet d k = Inherited \<longleftrightarrow> map_of d k = None \<and> k \<in> set objectPrototypeKeys"
  by (simp add: propertyGet_def split: option.splits)

lemma propertyGet_Some: "map_of d k = Some v \<Longrightarrow> propertyGet d k = Own v"
  by (simp add: propertyGet_def)

lemma normalizePartition_default [simp]: "normalizePartition defaultPartition = defaultPartition"
  by (simp add: normalizePartition_def defaultPartition_def normalizeSettings_def
      defaultSettings_def orString_def)

lemma wfPartition_default [simp]: "wfPartition defaultPartition"
  by (simp add: wfPartition_def defaultPartition_def)

lemma wfPartition_normalize [simp]: "wfPartition (normalizePartition ud) = wfPartition ud"
  by (simp add: wfPartition_def normalizePartition_def)

lemma list_all_update:
  "list_all P xs \<Longrightarrow> P (k, v) \<Longrightarrow> list_all P (AList.update k v xs)"
  by (induction xs) auto

lemma list_all_map_entry:
  "list_all (\<lambda>(a, v). Q v) xs \<Longrightarrow> (\<And>v. Q v \<Longrightarrow> Q (f v))
     \<Longrightarrow> list_all (\<lambda>(a, v). Q v) (AList.map_entry k f xs)"
  by (induction xs) auto

lemma map_of_list_all:
  "list_all (\<lambda>(a, v). Q v) xs \<Longrightarrow> map_of xs k = Some v \<Longrightarrow> Q v"
  by (induction xs) (auto split: if_splits)

text \<open>What the primitives do to the stored partitions.\<close>

lemma modifyBuiltin_fields [simp]:
  "userData (modifyBuiltin k f st) = userData st"
  "users (modifyBuiltin k f st) = users st"
  "usernameIndex (modifyBuiltin k f st) = usernameIndex st"
  "version (modifyBuiltin k f st) = version st"
  by (simp_all add: modifyBuiltin_def)

lemma userData_ensureUserData:
  "userData (ensureUserData u st) =
     (if propertyGet (userData st) u = Inherited then userData st
      else AList.update u (normalizePartition (orDefault (map_of (userData st) u) defaultPartition))
             (userData st))"
  by (simp add: ensureUserData_def propertyGet_def split: option.splits)

lemma userData_modifyPartition:
  "userData (modifyPartition a f st) =
     (if propertyGet (userData st) a = Inherited then userData st
      else AList.map_entry a f (userData st))"
  by (simp add: modifyPartition_def split: jsval.splits)

lemma map_of_userData_modifyPartition:
  "map_of (userData (modifyPartition a' f st)) a =
     (if a = a' then map_option f (map_of (userData st) a) else map_of (userData st) a)"
  by (auto simp: userData_modifyPartition map_of_map_entry propertyGet_Inherited
      split: option.splits)

lemma map_of_userData_ensureUserData:
  "map_of (userData (ensureUserData u st)) a =
     (if a = u \<and> propertyGet (userData st) u \<noteq> Inherited
      then Some (normalizePartition (orDefault (map_of (userData st) u) defaultPartition))
      else map_of (userData st) a)"
  by (auto simp: userData_ensureUserData update_conv' propertyGet_Inherited)

lemma keys_map_entry [simp]: "map fst (AList.map_entry k f xs) = map fst xs"
  by (induction xs) auto

lemma keys_modifyPartition [simp]:
  "map fst (userData (modifyPartition a f st)) = map fst (userData st)"
  by (simp add: userData_modifyPartition)

lemma modifyPartition_fields [simp]:
  "users (modifyPartition a f st) = users st"
  "usernameIndex (modifyPartition a f st) = usernameIndex st"
  "version (modifyPartition a f st) = version st"
  by (simp_all add: modifyPartition_def split: jsval.splits)

lemma users_ensureUserData [simp]: "users (ensureUserData u st) = users st"
  and usernameIndex_ensureUserData [simp]: "usernameIndex (ensureUserData u st) = usernameIndex st"
  and version_ensureUserData [simp]: "version (ensureUserData u st) = version st"
  by (simp_all add: ensureUserData_def split: jsval.splits)

lemma keys_ensureUserData:
  "map fst (userData (ensureUserData u st)) =
     (if u \<in> set (map fst (userData st)) \<or> u \<in> set objectPrototypeKeys then map fst (userData st)
      else map fst (userData st) @ [u])"
  by (auto simp: userData_ensureUserData update_keys propertyGet_Inherited map_of_eq_None_iff)

lemma wfState_ensureUserData: "wfState st \<Longrightarrow> wfState (ensureUserData u st)"
  unfolding wfState_def userData_ensureUserData
  by (cases "map_of (userData st) u") (auto simp: distinct_update intro!: list_all_update dest: map_of_list_all)

lemma wfState_modifyBuiltin [simp]: "wfState (modifyBuiltin k f st) = wfState st"
  by (simp add: wfState_def)

lemma wfState_modifyPartition:
  assumes "wfState st" and "\<And>ud. wfPartition ud \<Longrightarrow> wfPartition (f ud)"
  shows "wfState (modifyPartition a f st)"
  using assms unfolding wfState_def userData_modifyPartition
  by (auto intro!: list_all_map_entry)

lemma storedGallery_ensureUserData [simp]: "storedGallery (ensureUserData u st) a k = storedGallery st a k"
  by (simp add: storedGallery_def map_of_userData_ensureUserData normalizePartition_def
      defaultPartition_def split: option.splits)

lemma storedPost_ensureUserData [simp]: "storedPost (ensureUserData u st) a k = storedPost st a k"
  by (simp add: storedPost_def map_of_userData_ensureUserData normalizePartition_def
      defaultPartition_def split: option.splits)

lemma storedComment_ensureUserData [simp]: "storedComment (ensureUserData u st) a k = storedComment st a k"
  by (simp add: storedComment_def map_of_userData_ensureUserData normalizePartition_def
      defaultPartition_def split: option.splits)

lemma stored_modifyBuiltin [simp]:
  "storedGallery (modifyBuiltin b h st) a k = storedGallery st a k"
  "storedPost (modifyBuiltin b h st) a k = storedPost st a k"
  "storedComment (modifyBuiltin b h st) a k = storedComment st a k"
  by (simp_all add: storedGallery_def storedPost_def storedComment_def)

lemma isAdmin_ensureUserData [simp]: "isAdmin actor (ensureUserData u st) = isAdmin actor st"
  by (simp add: isAdmin_def)

lemma canManage_ensureUserData [simp]:
  "canManage actor x (ensureUserData u st) = canManage actor x st"
  by (simp add: canManage_def)

lemma map_of_orDefault_map_entry:
  "map_of (orDefault (map_option (AList.map_entry k' f) x) []) k =
     (if k = k' then map_option f (map_of (orDefault x []) k) else map_of (orDefault x []) k)"
  by (cases x) (auto simp: map_of_map_entry split: option.splits)

lemma keys_orDefault_map_entry [simp]:
  "map fst (orDefault (map_option (AList.map_entry k' f) x) []) = map fst (orDefault x [])"
  by (cases x) auto

lemma storedPost_modifyPost:
  "storedPost (modifyPost a' k' f st) a k =
     (if a = a' \<and> k = k' then map_option f (storedPost st a k) else storedPost st a k)"
  by (auto simp: storedPost_def modifyPost_def map_of_userData_modifyPartition
      map_of_orDefault_map_entry split: option.splits)

lemma storedGallery_modifyPost [simp]: "storedGallery (modifyPost a' k' f st) a k = storedGallery st a k"
  by (auto simp: storedGallery_def modifyPost_def map_of_userData_modifyPartition split: option.splits)

lemma storedComment_modifyPost [simp]: "storedComment (modifyPost a' k' f st) a k = storedComment st a k"
  by (auto simp: storedComment_def modifyPost_def map_of_userData_modifyPartition split: option.splits)

lemma storedGallery_modifyGallery:
  "storedGallery (modifyGallery a' k' f st) a k =
     (if a = a' \<and> k = k' then map_option f (storedGallery st a k) else storedGallery st a k)"
  by (auto simp: storedGallery_def modifyGallery_def map_of_userData_modifyPartition
      map_of_orDefault_map_entry split: option.splits)

lemma storedPost_modifyGallery [simp]: "storedPost (modifyGallery a' k' f st) a k = storedPost st a k"
  by (auto simp: storedPost_def modifyGallery_def map_of_userData_modifyPartition split: option.splits)

lemma storedComment_modifyGallery [simp]: "storedComment (modifyGallery a' k' f st) a k = storedComment st a k"
  by (auto simp: storedComment_def modifyGallery_def map_of_userData_modifyPartition split: option.splits)

lemma keys_modifyPost [simp]: "map fst (userData (modifyPost a k f st)) = map fst (userData st)"
  by (simp add: modifyPost_def)

text \<open>What the primitives do to the objects read as partitions.\<close>

lemma builtinAt_modifyBuiltin:
  "builtinAt (modifyBuiltin k f st) k' = (if k' = k then f (builtinAt st k) else builtinAt st k')"
  by (simp add: builtinAt_def modifyBuiltin_def update_conv')

lemma builtinAt_userData [simp]: "builtinAt (st\<lparr>userData := x\<rparr>) k = builtinAt st k"
  by (simp add: builtinAt_def)

lemma partitionOf_modifyBuiltin:
  assumes "b_data (f (builtinAt st k)) = b_data (builtinAt st k)"
  shows "partitionOf (modifyBuiltin k f st) a = partitionOf st a"
  using assms
  by (auto simp: partitionOf_def propertyGet_def builtinAt_modifyBuiltin split: option.splits)

lemma partitionOf_ensureUserData:
  "partitionOf (ensureUserData u st) a =
     (if a = u then Some (normalizePartition (orDefault (partitionOf st u) defaultPartition))
      else partitionOf st a)"
  by (auto simp: partitionOf_def ensureUserData_def propertyGet_def update_conv'
      builtinAt_modifyBuiltin split: option.splits)

lemma partitionOf_modifyPartition:
  "partitionOf (modifyPartition a' f st) a =
     (if a = a' then map_option f (partitionOf st a) else partitionOf st a)"
  by (auto simp: partitionOf_def modifyPartition_def propertyGet_def map_of_map_entry
      builtinAt_modifyBuiltin split: option.splits)

lemma in_ensureUserData [simp]:
  "galleriesIn (ensureUserData u st) a = galleriesIn st a"
  "postsIn (ensureUserData u st) a = postsIn st a"
  "commentsIn (ensureUserData u st) a = commentsIn st a"
  by (auto simp: galleriesIn_def postsIn_def commentsIn_def partitionOf_ensureUserData
      normalizePartition_def defaultPartition_def split: option.splits)

lemma found_ensureUserData [simp]:
  "galleryFound (ensureUserData u st) a k = galleryFound st a k"
  "postFound (ensureUserData u st) a k = postFound st a k"
  "commentFound (ensureUserData u st) a k = commentFound st a k"
  "ownGallery (ensureUserData u st) a k = ownGallery st a k"
  by (simp_all add: galleryFound_def postFound_def commentFound_def ownGallery_def)

lemma at_ensured:
  "galleryAt (ensureUserData a st) a k = galleryFound st a k"
  "postAt (ensureUserData a st) a k = postFound st a k"
  "commentAt (ensureUserData a st) a k = commentFound st a k"
  by (simp_all add: galleryAt_def postAt_def commentAt_def galleryFound_def postFound_def
      commentFound_def galleriesIn_def postsIn_def commentsIn_def partitionOf_ensureUserData
      normalizePartition_def defaultPartition_def split: option.splits)

lemma found_stored:
  "storedGallery st a k = Some g \<Longrightarrow> galleryFound st a k = Own g"
  "storedPost st a j = Some p \<Longrightarrow> postFound st a j = Own p"
  "storedComment st a i = Some c \<Longrightarrow> commentFound st a i = Own c"
  by (auto simp: storedGallery_def storedPost_def storedComment_def galleryFound_def postFound_def
      commentFound_def galleriesIn_def postsIn_def commentsIn_def partitionOf_def propertyGet_def
      split: option.splits)

text \<open>A record stored in the document is what the program reads.\<close>

lemma stored_partitionOf:
  "map_of (userData st) a = Some ud \<Longrightarrow> partitionOf st a = Some ud"
  by (simp add: partitionOf_def propertyGet_def)

lemma storedGallery_key: "storedGallery st a k = Some g \<Longrightarrow> a \<in> set (map fst (userData st))"
  by (auto simp: storedGallery_def split: option.splits dest: map_of_SomeD intro: rev_image_eqI)


lemma storedComment_key: "storedComment st a k = Some c \<Longrightarrow> a \<in> set (map fst (userData st))"
  by (auto simp: storedComment_def split: option.splits dest: map_of_SomeD intro: rev_image_eqI)

lemma partitionOf_ensured_stored:
  assumes "a \<in> set (map fst (userData st))"
  shows "\<exists>ud. map_of (userData st) a = Some ud
           \<and> partitionOf (ensureUserData a st) a = Some (normalizePartition ud)"
proof -
  from assms obtain ud where ud: "map_of (userData st) a = Some ud"
    by (cases "map_of (userData st) a") (auto simp: map_of_eq_None_iff)
  then have "partitionOf (ensureUserData a st) a = Some (normalizePartition ud)"
    by (simp add: partitionOf_def propertyGet_def map_of_userData_ensureUserData)
  with ud show ?thesis by blast
qed

lemma galleryAt_ensured_stored:
  assumes "a \<in> set (map fst (userData st))"
  shows "galleryAt (ensureUserData a st) a k =
           (case storedGallery st a k of
              Some g \<Rightarrow> Own g
            | None \<Rightarrow> if k \<in> set objectPrototypeKeys then Inherited else Undefined)"
proof -
  from partitionOf_ensured_stored [OF assms] obtain ud where
    "map_of (userData st) a = Some ud" "partitionOf (ensureUserData a st) a = Some (normalizePartition ud)"
    by blast
  then show ?thesis
    by (simp add: galleryAt_def storedGallery_def normalizePartition_def propertyGet_def
        split: option.splits)
qed


lemma commentAt_ensured_stored:
  assumes "a \<in> set (map fst (userData st))"
  shows "commentAt (ensureUserData a st) a k =
           (case storedComment st a k of
              Some c \<Rightarrow> Own c
            | None \<Rightarrow> if k \<in> set objectPrototypeKeys then Inherited else Undefined)"
proof -
  from partitionOf_ensured_stored [OF assms] obtain ud where
    "map_of (userData st) a = Some ud" "partitionOf (ensureUserData a st) a = Some (normalizePartition ud)"
    by blast
  then show ?thesis
    by (simp add: commentAt_def storedComment_def normalizePartition_def propertyGet_def
        split: option.splits)
qed

lemma galleryAt_ensured_Some:
  "storedGallery st a k = Some g \<Longrightarrow> galleryAt (ensureUserData a st) a k = Own g"
  by (simp add: galleryAt_ensured_stored [OF storedGallery_key])


lemma commentAt_ensured_Some:
  "storedComment st a k = Some c \<Longrightarrow> commentAt (ensureUserData a st) a k = Own c"
  by (simp add: commentAt_ensured_stored [OF storedComment_key])

text \<open>The galleries kept on any object read as a partition, and the tombstone of a
  member of \<^verbatim>\<open>Object.prototype\<close>, under the primitives.\<close>

lemma galleriesIn_modifyPartition:
  "galleriesIn (modifyPartition a' f st) a =
     (if a = a' then (case partitionOf st a of None \<Rightarrow> [] | Some ud \<Rightarrow> orDefault (galleries (f ud)) [])
      else galleriesIn st a)"
  by (simp add: galleriesIn_def partitionOf_modifyPartition split: option.splits)

lemma galleriesIn_modifyPartition_same:
  assumes "\<And>ud. galleries (f ud) = galleries ud"
  shows "galleriesIn (modifyPartition a' f st) a = galleriesIn st a"
  by (cases "partitionOf st a'") (auto simp: partitionOf_modifyPartition assms galleriesIn_def)

lemma galleriesIn_modifyBuiltin:
  assumes "b_data (f (builtinAt st k)) = b_data (builtinAt st k)"
  shows "galleriesIn (modifyBuiltin k f st) a = galleriesIn st a"
  using assms by (simp add: galleriesIn_def partitionOf_modifyBuiltin)

lemma ownGallery_modifyGallery:
  "ownGallery (modifyGallery a' k' f st) a k =
     (if a = a' \<and> k = k' then map_option f (ownGallery st a k) else ownGallery st a k)"
proof (cases "partitionOf st a'")
  case None
  then show ?thesis
    by (simp add: ownGallery_def modifyGallery_def galleriesIn_modifyPartition)
       (simp add: galleriesIn_def)
next
  case (Some ud)
  then show ?thesis
    by (simp add: ownGallery_def modifyGallery_def galleriesIn_modifyPartition
        map_of_orDefault_map_entry)
       (simp add: galleriesIn_def)
qed

lemma galleriesIn_unchanged [simp]:
  "galleriesIn (modifyPost a' k' f st) a = galleriesIn st a"
  "galleriesIn (modifyComment a' k' h st) a = galleriesIn st a"
  "galleriesIn (setPost a' k' p st) a = galleriesIn st a"
  "galleriesIn (setComment a' k' c st) a = galleriesIn st a"
  "galleriesIn (deletePost a' k' st) a = galleriesIn st a"
  "galleriesIn (deleteCommentsWhere hit a' st) a = galleriesIn st a"
  by (simp_all add: modifyPost_def modifyComment_def setPost_def setComment_def deletePost_def
      deleteCommentsWhere_def galleriesIn_modifyPartition_same)

lemma ownGallery_unchanged [simp]:
  "ownGallery (modifyPost a' k' f st) a k = ownGallery st a k"
  "ownGallery (modifyComment a' k' h st) a k = ownGallery st a k"
  "ownGallery (setPost a' k' p st) a k = ownGallery st a k"
  "ownGallery (setComment a' k' c st) a k = ownGallery st a k"
  "ownGallery (deletePost a' k' st) a k = ownGallery st a k"
  "ownGallery (deleteCommentsWhere hit a' st) a k = ownGallery st a k"
  by (simp_all add: ownGallery_def)

lemma galleryFound_unchanged [simp]:
  "galleryFound (modifyPost a' k' f st) a k = galleryFound st a k"
  "galleryFound (modifyComment a' k' h st) a k = galleryFound st a k"
  "galleryFound (setPost a' k' p st) a k = galleryFound st a k"
  "galleryFound (setComment a' k' c st) a k = galleryFound st a k"
  "galleryFound (deletePost a' k' st) a k = galleryFound st a k"
  "galleryFound (deleteCommentsWhere hit a' st) a k = galleryFound st a k"
  by (simp_all add: galleryFound_def)

lemma galleryFound_ownGallery:
  "galleryFound st a k =
     (case ownGallery st a k of
        Some g \<Rightarrow> Own g
      | None \<Rightarrow> if k \<in> set objectPrototypeKeys then Inherited else Undefined)"
  by (simp add: galleryFound_def ownGallery_def propertyGet_def)

lemma galleryFound_Own: "galleryFound st a k = Own g \<longleftrightarrow> ownGallery st a k = Some g"
  by (simp add: galleryFound_ownGallery split: option.splits)

lemma ownGallery_stored: "storedGallery st a k = Some g \<Longrightarrow> ownGallery st a k = Some g"
  using found_stored(1) [of st a k g] by (simp add: galleryFound_Own)

lemma ownGallery_stored_key:
  "a \<in> set (map fst (userData st)) \<Longrightarrow> ownGallery st a k = storedGallery st a k"
  by (cases "map_of (userData st) a")
     (auto simp: ownGallery_def galleriesIn_def storedGallery_def partitionOf_def propertyGet_def
        map_of_eq_None_iff)

lemma builtin_record_ensureUserData [simp]:
  "b_deletedAt (builtinAt (ensureUserData u st) k) = b_deletedAt (builtinAt st k)"
  by (simp add: ensureUserData_def builtinAt_modifyBuiltin split: jsval.splits)

lemma builtin_record_modifyPartition [simp]:
  "b_deletedAt (builtinAt (modifyPartition a f st) k) = b_deletedAt (builtinAt st k)"
  by (simp add: modifyPartition_def builtinAt_modifyBuiltin split: jsval.splits)

lemma builtin_record_unchanged [simp]:
  "b_deletedAt (builtinAt (modifyGallery a' k' g st) k) = b_deletedAt (builtinAt st k)"
  "b_deletedAt (builtinAt (modifyPost a' k' f st) k) = b_deletedAt (builtinAt st k)"
  "b_deletedAt (builtinAt (modifyComment a' k' h st) k) = b_deletedAt (builtinAt st k)"
  "b_deletedAt (builtinAt (setGallery a' k' x st) k) = b_deletedAt (builtinAt st k)"
  "b_deletedAt (builtinAt (setPost a' k' p st) k) = b_deletedAt (builtinAt st k)"
  "b_deletedAt (builtinAt (setComment a' k' c st) k) = b_deletedAt (builtinAt st k)"
  "b_deletedAt (builtinAt (deletePost a' k' st) k) = b_deletedAt (builtinAt st k)"
  "b_deletedAt (builtinAt (deleteGallery a' k' st) k) = b_deletedAt (builtinAt st k)"
  "b_deletedAt (builtinAt (deleteCommentsWhere hit a' st) k) = b_deletedAt (builtinAt st k)"
  by (simp_all add: modifyGallery_def modifyPost_def modifyComment_def setGallery_def setPost_def
      setComment_def deletePost_def deleteGallery_def deleteCommentsWhere_def)

subsection \<open>Listing the posts of a gallery\<close>

lemma storedPost_postsOf: "storedPost st a k = map_of (postsOf st a) k"
  by (simp add: storedPost_def postsOf_def defaultPartition_def split: option.splits)

lemma postsOf_ensureUserData [simp]: "postsOf (ensureUserData u st) a = postsOf st a"
  by (simp add: postsOf_def map_of_userData_ensureUserData normalizePartition_def
      defaultPartition_def split: option.splits)

lemma postsOf_modifyGallery [simp]: "postsOf (modifyGallery o' g f st) a = postsOf st a"
  by (cases "map_of (userData st) a")
    (auto simp: postsOf_def modifyGallery_def map_of_userData_modifyPartition defaultPartition_def)

lemma postsOf_distinct: "wfState st \<Longrightarrow> distinct (map fst (postsOf st a))"
proof (cases "map_of (userData st) a")
  case None
  then show ?thesis by (simp add: postsOf_def defaultPartition_def)
next
  case (Some ud)
  assume "wfState st"
  with Some have "wfPartition ud"
    by (auto simp: wfState_def dest: map_of_list_all)
  with Some show ?thesis by (simp add: postsOf_def wfPartition_def)
qed

lemma postEntriesOf_postsOf:
  "postEntriesOf st go gid incl a =
     map (\<lambda>(k, p). \<lparr>e_ownerId = a, e_ownerName = getUserName st a, e_key = k, e_p = p\<rparr>)
       (filter (\<lambda>(k, p). postMatches go gid incl a p) (postsOf st a))"
  by (simp add: postEntriesOf_def postsOf_def)

lemma getUserName_ensureUserData [simp]: "getUserName (ensureUserData u st) a = getUserName st a"
  by (simp add: getUserName_def)

lemma postEntriesOf_ensureUserData [simp]:
  "postEntriesOf (ensureUserData u st) go gid incl a = postEntriesOf st go gid incl a"
  by (simp add: postEntriesOf_postsOf)

lemma postEntriesOf_ensureUserData_fun [simp]:
  "postEntriesOf (ensureUserData u st) go gid incl = postEntriesOf st go gid incl"
  by (rule ext) simp

lemma listPostsLoop_eq:
  "listPostsLoop go gid incl owners out st =
     (out @ concat (map (postEntriesOf st go gid incl) owners), fold ensureUserData owners st)"
proof (induction owners arbitrary: out st)
  case Nil
  show ?case by simp
next
  case (Cons a owners)
  show ?case by (simp add: Cons.IH Let_def)
qed

lemma entryLocs_postEntriesOf:
  "entryLocs (concat (map (postEntriesOf st go gid incl) owners)) =
     {(a, k). a \<in> set owners \<and> (\<exists>p. (k, p) \<in> set (postsOf st a) \<and> postMatches go gid incl a p)}"
  by (auto simp: entryLocs_def postEntriesOf_postsOf image_iff) force

lemma storedPost_fold_ensure [simp]: "storedPost (fold ensureUserData us st) a k = storedPost st a k"
  by (induction us arbitrary: st) auto

lemma storedGallery_fold_ensure [simp]: "storedGallery (fold ensureUserData us st) a k = storedGallery st a k"
  by (induction us arbitrary: st) auto

lemma storedComment_fold_ensure [simp]: "storedComment (fold ensureUserData us st) a k = storedComment st a k"
  by (induction us arbitrary: st) auto

lemma storedPost_fold_modifyPost:
  assumes "\<And>p. f (f p) = f p"
  shows "storedPost (fold (\<lambda>e. modifyPost (e_ownerId e) (e_key e) f) es st) a k =
           (if (a, k) \<in> entryLocs es then map_option f (storedPost st a k) else storedPost st a k)"
proof (induction es arbitrary: st)
  case Nil
  show ?case by (simp add: entryLocs_def)
next
  case (Cons e es)
  show ?case
    using assms
    by (cases "storedPost st a k") (auto simp: Cons.IH storedPost_modifyPost entryLocs_def)
qed

lemma storedGallery_fold_modifyPost [simp]:
  "storedGallery (fold (\<lambda>e. modifyPost (e_ownerId e) (e_key e) f) es st) a k = storedGallery st a k"
  by (induction es arbitrary: st) auto

lemma tombstoneByGallery_idem: "tombstoneByGallery now (tombstoneByGallery now p) = tombstoneByGallery now p"
  by (simp add: tombstoneByGallery_def)

lemma restoreByGallery_idem: "restoreByGallery now (restoreByGallery now p) = restoreByGallery now p"
  by (simp add: restoreByGallery_def)

lemma listPosts_locs:
  assumes "wfState st" "listPostsInGallery go gid incl st = (es, st')"
  shows "entryLocs es = {(a, k). \<exists>p. storedPost st a k = Some p \<and> postMatches go gid incl a p}"
    and "st' = fold ensureUserData (map fst (userData st)) st"
proof -
  from assms(2) have es: "es = concat (map (postEntriesOf st go gid incl) (map fst (userData st)))"
    and st': "st' = fold ensureUserData (map fst (userData st)) st"
    by (simp_all add: listPostsInGallery_def listPostsLoop_eq)
  show "st' = fold ensureUserData (map fst (userData st)) st" by (rule st')
  have mem: "(k, p) \<in> set (postsOf st a) \<longleftrightarrow> storedPost st a k = Some p" for a k p
    using postsOf_distinct [OF assms(1), of a] by (simp add: storedPost_postsOf)
  have dom: "a \<in> set (map fst (userData st))" if "storedPost st a k = Some p" for a k p
    using that by (auto simp: storedPost_def split: option.splits dest: map_of_SomeD intro: rev_image_eqI)
  show "entryLocs es = {(a, k). \<exists>p. storedPost st a k = Some p \<and> postMatches go gid incl a p}"
    unfolding es entryLocs_postEntriesOf using dom by (auto simp: mem)
qed

subsection \<open>Deleting a gallery\<close>

lemma wfState_modifyGallery: "wfState st \<Longrightarrow> wfState (modifyGallery a k f st)"
  unfolding modifyGallery_def
  by (erule wfState_modifyPartition) (simp add: wfPartition_def)

lemma wfState_modifyPost: "wfState st \<Longrightarrow> wfState (modifyPost a k f st)"
  unfolding modifyPost_def
  by (erule wfState_modifyPartition) (simp add: wfPartition_def)

lemma cascade_posts:
  assumes wf: "wfState st"
    and idem: "\<And>p. f (f p) = f p"
    and ls: "listPostsInGallery go gid True st = (es, st1)"
  shows "storedPost (fold (\<lambda>e. modifyPost (e_ownerId e) (e_key e) f) es st1) a k =
           (case storedPost st a k of
              None \<Rightarrow> None
            | Some p \<Rightarrow> Some (if galleryOwnerOf a p = go \<and> p_galleryId p = Some gid then f p else p))"
    and "storedGallery (fold (\<lambda>e. modifyPost (e_ownerId e) (e_key e) f) es st1) a k = storedGallery st a k"
proof -
  note locs = listPosts_locs [OF wf ls]
  show "storedPost (fold (\<lambda>e. modifyPost (e_ownerId e) (e_key e) f) es st1) a k =
           (case storedPost st a k of
              None \<Rightarrow> None
            | Some p \<Rightarrow> Some (if galleryOwnerOf a p = go \<and> p_galleryId p = Some gid then f p else p))"
    by (simp add: storedPost_fold_modifyPost [OF idem] locs(1)) (simp add: locs(2) postMatches_def split: option.splits)
  show "storedGallery (fold (\<lambda>e. modifyPost (e_ownerId e) (e_key e) f) es st1) a k = storedGallery st a k"
    by (simp add: locs(2))
qed

text \<open>
  Claim C1.  For a permitted actor and a gallery \<open>G = (ownerId, gid)\<close> that is not
  tombstoned, \<^verbatim>\<open>deleteGallerySoft\<close> succeeds and tombstones \<open>G\<close>; every post of any
  partition that is under \<open>G\<close> and was not tombstoned gets the tombstone and
  \<^verbatim>\<open>deletedByGallery = true\<close>; every other post, in particular one that was
  tombstoned already, is left exactly as it was, and no post appears or disappears.
  (The program tests a tombstone by truthiness; for the timestamps it writes that is
  the same as being non-null.)
\<close>

theorem deleteGallerySoft_cascade:
  assumes wf: "wfState st"
    and perm: "canManage actor ownerId st"
    and g: "storedGallery st ownerId gid = Some g"
    and alive: "\<not> truthy (g_deletedAt g)"
    and run: "deleteGallerySoft actor now ownerId gid st = (r, st')"
  shows "r = Inr ()
    \<and> storedGallery st' ownerId gid = Some (g\<lparr>g_deletedAt := Some now, g_updatedAt := now\<rparr>)
    \<and> (\<forall>a k. storedPost st' a k =
          (case storedPost st a k of
             None \<Rightarrow> None
           | Some p \<Rightarrow>
               Some (if galleryOwnerOf a p = ownerId \<and> p_galleryId p = Some gid
                        \<and> \<not> truthy (p_deletedAt p)
                     then p\<lparr>p_deletedAt := Some now, p_updatedAt := now,
                            p_deletedByGallery := True\<rparr>
                     else p)))"
proof -
  define st2 where "st2 = modifyGallery ownerId gid
      (\<lambda>g. g\<lparr>g_deletedAt := Some now, g_updatedAt := now\<rparr>) (ensureUserData ownerId st)"
  obtain es st3 where ls: "listPostsInGallery ownerId gid True st2 = (es, st3)"
    by (cases "listPostsInGallery ownerId gid True st2")
  have wf2: "wfState st2"
    unfolding st2_def by (intro wfState_modifyGallery wfState_ensureUserData wf)
  from run perm g alive ls
  have r: "r = Inr ()"
    and st': "st' = fold (\<lambda>e. modifyPost (e_ownerId e) (e_key e) (tombstoneByGallery now)) es st3"
    by (simp_all add: deleteGallerySoft_def Let_def st2_def galleryAt_ensured_Some [OF g])
  note cp = cascade_posts [OF wf2 tombstoneByGallery_idem ls]
  have gal: "storedGallery st' ownerId gid = Some (g\<lparr>g_deletedAt := Some now, g_updatedAt := now\<rparr>)"
    unfolding st' cp(2) by (simp add: st2_def storedGallery_modifyGallery g)
  have posts: "storedPost st' a k =
          (case storedPost st a k of
             None \<Rightarrow> None
           | Some p \<Rightarrow>
               Some (if galleryOwnerOf a p = ownerId \<and> p_galleryId p = Some gid
                        \<and> \<not> truthy (p_deletedAt p)
                     then p\<lparr>p_deletedAt := Some now, p_updatedAt := now,
                            p_deletedByGallery := True\<rparr>
                     else p))" for a k
    unfolding st' cp(1)
    by (simp add: st2_def tombstoneByGallery_def split: option.splits)
  from r gal posts show ?thesis by blast
qed

subsection \<open>Restoring a gallery\<close>

text \<open>
  Claim C2.  For a permitted actor and a tombstoned gallery \<open>G = (ownerId, gid)\<close>,
  \<^verbatim>\<open>restoreGallery\<close> succeeds and clears the tombstone of \<open>G\<close>; among the posts of
  all partitions it clears the tombstone of exactly the tombstoned posts under \<open>G\<close>
  with \<^verbatim>\<open>deletedByGallery = true\<close>, and clears that flag on them; every other post,
  in particular a post under \<open>G\<close> that was deleted on its own (flag false), is left
  exactly as it was and so stays tombstoned.
\<close>

theorem restoreGallery_cascade:
  assumes wf: "wfState st"
    and perm: "canManage actor ownerId st"
    and g: "storedGallery st ownerId gid = Some g"
    and dead: "truthy (g_deletedAt g)"
    and run: "restoreGallery actor now ownerId gid st = (r, st')"
  shows "r = Inr ()
    \<and> storedGallery st' ownerId gid = Some (g\<lparr>g_deletedAt := None, g_updatedAt := now\<rparr>)
    \<and> (\<forall>a k. storedPost st' a k =
          (case storedPost st a k of
             None \<Rightarrow> None
           | Some p \<Rightarrow>
               Some (if galleryOwnerOf a p = ownerId \<and> p_galleryId p = Some gid
                        \<and> truthy (p_deletedAt p) \<and> p_deletedByGallery p
                     then p\<lparr>p_deletedAt := None, p_deletedByGallery := False,
                            p_updatedAt := now\<rparr>
                     else p)))"
proof -
  define st2 where "st2 = modifyGallery ownerId gid
      (\<lambda>g. g\<lparr>g_deletedAt := None, g_updatedAt := now\<rparr>) (ensureUserData ownerId st)"
  obtain es st3 where ls: "listPostsInGallery ownerId gid True st2 = (es, st3)"
    by (cases "listPostsInGallery ownerId gid True st2")
  have wf2: "wfState st2"
    unfolding st2_def using wf by (simp add: wfState_modifyGallery wfState_ensureUserData)
  from run perm g dead ls
  have r: "r = Inr ()"
    and st': "st' = fold (\<lambda>e. modifyPost (e_ownerId e) (e_key e) (restoreByGallery now)) es st3"
    by (simp_all add: restoreGallery_def Let_def st2_def galleryAt_ensured_Some [OF g])
  note cp = cascade_posts [OF wf2 restoreByGallery_idem ls]
  have gal: "storedGallery st' ownerId gid = Some (g\<lparr>g_deletedAt := None, g_updatedAt := now\<rparr>)"
    unfolding st' cp(2) by (simp add: st2_def storedGallery_modifyGallery g)
  have posts: "storedPost st' a k =
          (case storedPost st a k of
             None \<Rightarrow> None
           | Some p \<Rightarrow>
               Some (if galleryOwnerOf a p = ownerId \<and> p_galleryId p = Some gid
                        \<and> truthy (p_deletedAt p) \<and> p_deletedByGallery p
                     then p\<lparr>p_deletedAt := None, p_deletedByGallery := False,
                            p_updatedAt := now\<rparr>
                     else p))" for a k
    unfolding st' cp(1)
    by (simp add: st2_def restoreByGallery_def split: option.splits)
  from r gal posts show ?thesis by blast
qed



subsection \<open>The comment loop of the purges\<close>



lemma storedComment_commentsOf: "storedComment st a k = map_of (commentsOf st a) k"
  by (simp add: storedComment_def commentsOf_def defaultPartition_def split: option.splits)

lemma commentsOf_distinct: "wfState st \<Longrightarrow> distinct (map fst (commentsOf st a))"
proof (cases "map_of (userData st) a")
  case None
  then show ?thesis by (simp add: commentsOf_def defaultPartition_def)
next
  case (Some ud)
  assume "wfState st"
  with Some have "wfPartition ud"
    by (auto simp: wfState_def dest: map_of_list_all)
  with Some show ?thesis by (simp add: commentsOf_def wfPartition_def)
qed




lemma storedPost_deleteCommentsWhere [simp]: "storedPost (deleteCommentsWhere hit a' st) a k = storedPost st a k"
  by (simp add: storedPost_def deleteCommentsWhere_def map_of_map_entry map_of_userData_modifyPartition split: option.splits)

lemma storedGallery_deleteCommentsWhere [simp]:
  "storedGallery (deleteCommentsWhere hit a' st) a k = storedGallery st a k"
  by (simp add: storedGallery_def deleteCommentsWhere_def map_of_map_entry map_of_userData_modifyPartition split: option.splits)



lemma keys_deleteCommentsWhere [simp]:
  "map fst (userData (deleteCommentsWhere hit a st)) = map fst (userData st)"
  by (simp add: deleteCommentsWhere_def)


subsection \<open>Purging a gallery\<close>







lemma storedGallery_deletePost [simp]: "storedGallery (deletePost a' k' st) a k = storedGallery st a k"
  by (simp add: storedGallery_def deletePost_def map_of_map_entry map_of_userData_modifyPartition split: option.splits)

lemma storedComment_deletePost [simp]: "storedComment (deletePost a' k' st) a k = storedComment st a k"
  by (simp add: storedComment_def deletePost_def map_of_map_entry map_of_userData_modifyPartition split: option.splits)





lemma wfState_fold_ensure: "wfState st \<Longrightarrow> wfState (fold ensureUserData us st)"
  by (induction us arbitrary: st) (auto simp: wfState_ensureUserData)

lemma keys_fold_ensure_subset:
  "set (map fst (userData st)) \<subseteq> set (map fst (userData (fold ensureUserData us st)))"
proof (induction us arbitrary: st)
  case Nil
  show ?case by simp
next
  case (Cons u us)
  have "set (map fst (userData st)) \<subseteq> set (map fst (userData (ensureUserData u st)))"
    by (auto simp: keys_ensureUserData)
  with Cons [of "ensureUserData u st"] show ?case by auto
qed


subsection \<open>The gallery cascade on the sample document\<close>

lemma demo_wf: "wfState demoState"
  by (simp add: wfState_def wfPartition_def demoState_def)

lemma demo_alice_manages: "canManage (Some ''u_alice'') ''u_alice'' demoState"
  by (simp add: canManage_def)

lemma demo_trip: "storedGallery demoState ''u_alice'' ''g_trip'' = Some demoTrip"
  by (simp add: storedGallery_def demoState_def)

lemma demo_posts:
  "storedPost demoState ''u_bob'' ''p_day1'' = Some demoDay1"
  "storedPost demoState ''u_bob'' ''p_day2'' = Some demoDay2"
  "storedPost demoState ''u_bob'' ''p_note'' = Some demoNote"
  by (simp_all add: storedPost_def demoState_def)

text \<open>On the sample document: Alice deletes \<open>g_trip\<close>.\<close>

theorem deleteGallerySoft_cascade_witness:
  "wfState demoState
   \<and> canManage (Some ''u_alice'') ''u_alice'' demoState
   \<and> storedGallery demoState ''u_alice'' ''g_trip'' = Some demoTrip
   \<and> \<not> truthy (g_deletedAt demoTrip)
   \<and> (case deleteGallerySoft (Some ''u_alice'') ''2026-01-06T00:00:00.000Z'' ''u_alice'' ''g_trip''
              demoState of
        (r, st') \<Rightarrow>
          r = Inr ()
          \<and> storedGallery st' ''u_alice'' ''g_trip''
              = Some (demoTrip\<lparr>g_deletedAt := Some ''2026-01-06T00:00:00.000Z'',
                                g_updatedAt := ''2026-01-06T00:00:00.000Z''\<rparr>)
          \<and> storedPost st' ''u_bob'' ''p_day1''
              = Some (demoDay1\<lparr>p_deletedAt := Some ''2026-01-06T00:00:00.000Z'',
                                p_updatedAt := ''2026-01-06T00:00:00.000Z'',
                                p_deletedByGallery := True\<rparr>)
          \<and> storedPost st' ''u_bob'' ''p_day2'' = Some demoDay2
          \<and> storedPost st' ''u_bob'' ''p_note'' = Some demoNote)"
proof -
  have alive: "\<not> truthy (g_deletedAt demoTrip)" by (simp add: demoTrip_def)
  obtain r st' where run:
    "deleteGallerySoft (Some ''u_alice'') ''2026-01-06T00:00:00.000Z'' ''u_alice'' ''g_trip''
       demoState = (r, st')"
    by (cases "deleteGallerySoft (Some ''u_alice'') ''2026-01-06T00:00:00.000Z'' ''u_alice''
       ''g_trip'' demoState")
  from deleteGallerySoft_cascade [OF demo_wf demo_alice_manages demo_trip alive run]
  have "r = Inr ()"
    and "storedGallery st' ''u_alice'' ''g_trip''
              = Some (demoTrip\<lparr>g_deletedAt := Some ''2026-01-06T00:00:00.000Z'',
                                g_updatedAt := ''2026-01-06T00:00:00.000Z''\<rparr>)"
    and "storedPost st' ''u_bob'' ''p_day1''
              = Some (demoDay1\<lparr>p_deletedAt := Some ''2026-01-06T00:00:00.000Z'',
                                p_updatedAt := ''2026-01-06T00:00:00.000Z'',
                                p_deletedByGallery := True\<rparr>)"
    and "storedPost st' ''u_bob'' ''p_day2'' = Some demoDay2"
    and "storedPost st' ''u_bob'' ''p_note'' = Some demoNote"
    by (simp_all add: demo_posts galleryOwnerOf_def orString_def demoDay1_def demoDay2_def demoNote_def)
  with demo_wf demo_alice_manages demo_trip alive run show ?thesis by simp
qed

subsection \<open>Purging a post; what a gallery purge leaves\<close>

lemma trashed_wf: "wfState trashedState"
  by (simp add: wfState_def wfPartition_def trashedState_def)

lemma trashed_trip:
  "storedGallery trashedState ''u_alice'' ''g_trip''
     = Some (demoTrip\<lparr>g_deletedAt := Some ''2026-01-06T00:00:00.000Z''\<rparr>)"
  by (simp add: storedGallery_def trashedState_def)

lemma trashed_posts:
  "storedPost trashedState ''u_bob'' ''p_day1''
     = Some (demoDay1\<lparr>p_deletedAt := Some ''2026-01-06T00:00:00.000Z'', p_deletedByGallery := True\<rparr>)"
  "storedPost trashedState ''u_bob'' ''p_day2'' = Some demoDay2"
  "storedPost trashedState ''u_bob'' ''p_note'' = Some demoNote"
  by (simp_all add: storedPost_def trashedState_def)

text \<open>On the sample document: Alice restores \<open>g_trip\<close>; the post Bob deleted
  himself stays in the trash.\<close>

theorem restoreGallery_cascade_witness:
  "wfState trashedState
   \<and> canManage (Some ''u_alice'') ''u_alice'' trashedState
   \<and> truthy (g_deletedAt (demoTrip\<lparr>g_deletedAt := Some ''2026-01-06T00:00:00.000Z''\<rparr>))
   \<and> (case restoreGallery (Some ''u_alice'') ''2026-01-07T00:00:00.000Z'' ''u_alice'' ''g_trip''
              trashedState of
        (r, st') \<Rightarrow>
          r = Inr ()
          \<and> storedGallery st' ''u_alice'' ''g_trip''
              = Some (demoTrip\<lparr>g_deletedAt := None, g_updatedAt := ''2026-01-07T00:00:00.000Z''\<rparr>)
          \<and> storedPost st' ''u_bob'' ''p_day1''
              = Some (demoDay1\<lparr>p_updatedAt := ''2026-01-07T00:00:00.000Z''\<rparr>)
          \<and> storedPost st' ''u_bob'' ''p_day2'' = Some demoDay2
          \<and> truthy (p_deletedAt demoDay2))"
proof -
  have perm: "canManage (Some ''u_alice'') ''u_alice'' trashedState"
    by (simp add: canManage_def)
  have dead: "truthy (g_deletedAt (demoTrip\<lparr>g_deletedAt := Some ''2026-01-06T00:00:00.000Z''\<rparr>))"
    by simp
  obtain r st' where run:
    "restoreGallery (Some ''u_alice'') ''2026-01-07T00:00:00.000Z'' ''u_alice'' ''g_trip''
       trashedState = (r, st')"
    by (cases "restoreGallery (Some ''u_alice'') ''2026-01-07T00:00:00.000Z'' ''u_alice''
       ''g_trip'' trashedState")
  from restoreGallery_cascade [OF trashed_wf perm trashed_trip dead run]
  have "r = Inr ()"
    and "storedGallery st' ''u_alice'' ''g_trip''
              = Some (demoTrip\<lparr>g_deletedAt := None, g_updatedAt := ''2026-01-07T00:00:00.000Z''\<rparr>)"
    and "storedPost st' ''u_bob'' ''p_day1''
              = Some (demoDay1\<lparr>p_updatedAt := ''2026-01-07T00:00:00.000Z''\<rparr>)"
    and "storedPost st' ''u_bob'' ''p_day2'' = Some demoDay2"
    by (simp_all add: trashed_posts galleryOwnerOf_def orString_def demoDay1_def demoDay2_def
        demoTrip_def)
  moreover have "truthy (p_deletedAt demoDay2)" by (simp add: demoDay2_def)
  ultimately show ?thesis using trashed_wf perm dead run by simp
qed





subsection \<open>Purging without a tombstone\<close>








lemma demo_root_admin: "isAdmin (Some ''u_root'') demoState"
  by (simp add: isAdmin_def propertyKey_def demoState_def demoUsers_def)




subsection \<open>Permission\<close>

text \<open>
  Claim C5.  For every document and every mutating command (create, update, delete,
  restore or purge of a gallery, post or comment): when the acting user is neither
  an administrator nor the owner of the targeted partition, the command fails with
  \<open>PermissionDenied\<close> and the whole document (users, index, partitions) is returned
  unchanged; an administrator passes \<^verbatim>\<open>canManage\<close> for any partition, and no command
  of an administrator fails with \<open>PermissionDenied\<close>.
\<close>

theorem denied_leaves_document_unchanged:
  "(\<not> isAdmin actor st \<and> actor \<noteq> Some (target c)
      \<longrightarrow> exec actor now c st = (Some PermissionDenied, st))
   \<and> (isAdmin actor st
      \<longrightarrow> canManage actor userId st \<and> fst (exec actor now c st) \<noteq> Some PermissionDenied)"
proof (intro conjI impI)
  assume "\<not> isAdmin actor st \<and> actor \<noteq> Some (target c)"
  then have no: "\<not> canManage actor (target c) st"
    by (auto simp: canManage_def)
  then show "exec actor now c st = (Some PermissionDenied, st)"
    by (cases c)
       (simp_all add: failureOf_def createGallery_def updateGallery_def deleteGallerySoft_def
          restoreGallery_def purgeGallery_def createPost_def updatePost_def deletePostSoft_def
          restorePost_def purgePost_def createComment_def updateComment_def
          deleteCommentSoft_def)
next
  assume adm: "isAdmin actor st"
  then show "canManage actor userId st" by (simp add: canManage_def)
  from adm have yes: "canManage actor (target c) st" by (simp add: canManage_def)
  then show "fst (exec actor now c st) \<noteq> Some PermissionDenied"
    by (cases c)
       (auto simp: failureOf_def createGallery_def updateGallery_def deleteGallerySoft_def
          restoreGallery_def purgeGallery_def createPost_def updatePost_def deletePostSoft_def
          restorePost_def purgePost_def createComment_def updateComment_def
          deleteCommentSoft_def Let_def split: option.splits prod.splits if_splits sum.splits jsval.splits)
qed

lemma demo_carol_not_admin: "\<not> isAdmin (Some ''u_carol'') demoState"
  by (simp add: isAdmin_def propertyKey_def demoState_def demoUsers_def)

text \<open>On the sample document: Carol may not edit Bob's post, the
  administrator may.\<close>

theorem denied_leaves_document_unchanged_witness:
  "\<not> isAdmin (Some ''u_carol'') demoState
   \<and> Some ''u_carol'' \<noteq> Some (target (UpdatePost ''u_bob'' ''p_day1''
          \<lparr>pd_galleryId = None, pd_galleryOwnerId = None, pd_title = Some ''x'', pd_content = None\<rparr>))
   \<and> exec (Some ''u_carol'') ''2026-01-08T00:00:00.000Z''
        (UpdatePost ''u_bob'' ''p_day1''
          \<lparr>pd_galleryId = None, pd_galleryOwnerId = None, pd_title = Some ''x'', pd_content = None\<rparr>)
        demoState = (Some PermissionDenied, demoState)
   \<and> isAdmin (Some ''u_root'') demoState
   \<and> canManage (Some ''u_root'') ''u_bob'' demoState
   \<and> fst (exec (Some ''u_root'') ''2026-01-08T00:00:00.000Z''
        (UpdatePost ''u_bob'' ''p_day1''
          \<lparr>pd_galleryId = None, pd_galleryOwnerId = None, pd_title = Some ''x'', pd_content = None\<rparr>)
        demoState) \<noteq> Some PermissionDenied"
  using denied_leaves_document_unchanged [where actor = "Some ''u_carol''" and st = demoState
      and c = "UpdatePost ''u_bob'' ''p_day1''
          \<lparr>pd_galleryId = None, pd_galleryOwnerId = None, pd_title = Some ''x'', pd_content = None\<rparr>"
      and now = "''2026-01-08T00:00:00.000Z''"]
    denied_leaves_document_unchanged [where actor = "Some ''u_root''" and st = demoState
      and userId = "''u_bob''"
      and c = "UpdatePost ''u_bob'' ''p_day1''
          \<lparr>pd_galleryId = None, pd_galleryOwnerId = None, pd_title = Some ''x'', pd_content = None\<rparr>"
      and now = "''2026-01-08T00:00:00.000Z''"]
    demo_carol_not_admin demo_root_admin
  by simp

subsection \<open>Accounts\<close>




text \<open>Registration followed by verification, for a name that \<^verbatim>\<open>usernameIndex\<close> does
  not answer for (neither an own entry nor a name inherited from
  \<^verbatim>\<open>Object.prototype\<close>): \<^verbatim>\<open>signup\<close> succeeds and \<^verbatim>\<open>login\<close> yields the id it assigned.\<close>

lemma signup_then_login:
  assumes valid: "isValidUsername username"
    and free: "propertyGet (usernameIndex st) username = Undefined"
    and b64: "atob (btoa salt) = Some salt"
    and run: "signup kdf btoa now rnd salt username password st = (r, st1)"
  shows "r = Inr ()
    \<and> login kdf btoa atob username password st1
        = (Inr (safeId ''u_'' rnd), ensureUserData (safeId ''u_'' rnd) st1)"
proof -
  from run valid free have r: "r = Inr ()"
    and st1: "st1 = ensureUserData (safeId ''u_'' rnd)
        (st\<lparr>users :=
             AList.update (safeId ''u_'' rnd)
               \<lparr>u_userId = safeId ''u_'' rnd, u_username = username,
                u_saltB64 = bytesToB64 btoa salt,
                u_hashB64 = deriveHashB64 kdf btoa password salt,
                u_createdAt = now, u_role = ''user''\<rparr>
               (users st),
            usernameIndex := AList.update username (safeId ''u_'' rnd) (usernameIndex st)\<rparr>)"
    by (simp_all add: signup_def Let_def)
  have idx: "propertyGet (usernameIndex st1) username = Own (safeId ''u_'' rnd)"
    by (simp add: st1 propertyGet_def update_conv')
  have usr: "map_of (users st1) (safeId ''u_'' rnd)
      = Some \<lparr>u_userId = safeId ''u_'' rnd, u_username = username,
                u_saltB64 = bytesToB64 btoa salt,
                u_hashB64 = deriveHashB64 kdf btoa password salt,
                u_createdAt = now, u_role = ''user''\<rparr>"
    by (simp add: st1 update_conv')
  have ne: "safeId ''u_'' rnd \<noteq> []" by (simp add: safeId_def)
  from idx usr ne b64 r show ?thesis
    by (simp add: login_def b64ToBytes_def bytesToB64_def)
qed

text \<open>
  Claim C8, at an input where the program departs from it.  \<open>constructor\<close> is a
  valid user name (11 characters, no white space) and no document has it in the
  index, yet \<^verbatim>\<open>signup\<close> answers that the name exists already and registers nothing:
  \<^verbatim>\<open>state.usernameIndex?.["constructor"]\<close> is the inherited \<^verbatim>\<open>Object\<close> function, which
  is truthy.  A later \<^verbatim>\<open>login\<close> with the same name and password fails.
\<close>

theorem signup_rejects_inherited_name:
  "isValidUsername ''constructor''
   \<and> map_of (usernameIndex emptyState) ''constructor'' = None
   \<and> signup kdf btoa now rnd salt ''constructor'' password emptyState
        = (Inl DuplicateUsername, emptyState)
   \<and> login kdf btoa atob ''constructor'' password emptyState
        = (Inl InvalidCredentials, emptyState)"
proof -
  have valid: "isValidUsername ''constructor''"
    by code_simp
  have inh: "propertyGet (usernameIndex emptyState) ''constructor'' = Inherited"
    by (simp add: propertyGet_def emptyState_def objectPrototypeKeys_def)
  from valid inh show ?thesis
    by (simp add: signup_def login_def) (simp add: emptyState_def)
qed

subsection \<open>The cascades and the resolution, in general\<close>

lemma keys_ensure_same:
  "a \<in> set (map fst (userData st)) \<Longrightarrow>
     map fst (userData (ensureUserData a st)) = map fst (userData st)"
  by (simp add: keys_ensureUserData)

lemma keys_fold_ensure_same:
  "set us \<subseteq> set (map fst (userData st)) \<Longrightarrow>
     map fst (userData (fold ensureUserData us st)) = map fst (userData st)"
proof (induction us arbitrary: st)
  case Nil
  show ?case by simp
next
  case (Cons a us)
  from Cons.prems have a: "a \<in> set (map fst (userData st))" by simp
  then have k: "map fst (userData (ensureUserData a st)) = map fst (userData st)"
    by (rule keys_ensure_same)
  with Cons.prems have "set us \<subseteq> set (map fst (userData (ensureUserData a st)))" by simp
  from Cons.IH [OF this] k show ?case by simp
qed

lemma keys_modifyGallery [simp]:
  "map fst (userData (modifyGallery a k f st)) = map fst (userData st)"
  by (simp add: modifyGallery_def)

lemma keys_fold_modifyPost [simp]:
  "map fst (userData (fold (\<lambda>e. modifyPost (e_ownerId e) (e_key e) f) es st)) = map fst (userData st)"
  by (induction es arbitrary: st) simp_all

lemma storedComment_fold_modifyPost [simp]:
  "storedComment (fold (\<lambda>e. modifyPost (e_ownerId e) (e_key e) f) es st) a k = storedComment st a k"
  by (induction es arbitrary: st) auto

lemma wfState_fold_modifyPost:
  "wfState st \<Longrightarrow> wfState (fold (\<lambda>e. modifyPost (e_ownerId e) (e_key e) f) es st)"
  by (induction es arbitrary: st) (simp_all add: wfState_modifyPost)

lemma users_modify [simp]:
  "users (modifyGallery a k h st) = users st"
  "users (modifyPost a k f st) = users st"
  "users (modifyComment a k f' st) = users st"
  by (simp_all add: modifyGallery_def modifyPost_def modifyComment_def)

lemma users_fold_ensure [simp]: "users (fold ensureUserData us st) = users st"
  by (induction us arbitrary: st) simp_all

lemma users_fold_modifyPost [simp]:
  "users (fold (\<lambda>e. modifyPost (e_ownerId e) (e_key e) f) es st) = users st"
  by (induction es arbitrary: st) simp_all

lemma ownGallery_fold_ensure [simp]: "ownGallery (fold ensureUserData us st) a k = ownGallery st a k"
  by (induction us arbitrary: st) auto

lemma galleryFound_fold_ensure [simp]:
  "galleryFound (fold ensureUserData us st) a k = galleryFound st a k"
  by (induction us arbitrary: st) auto

lemma ownGallery_fold_modifyPost [simp]:
  "ownGallery (fold (\<lambda>e. modifyPost (e_ownerId e) (e_key e) f) es st) a k = ownGallery st a k"
  by (induction es arbitrary: st) auto

lemma deletedAt_fold_ensure [simp]:
  "b_deletedAt (builtinAt (fold ensureUserData us st) k) = b_deletedAt (builtinAt st k)"
  by (induction us arbitrary: st) auto

lemma deletedAt_fold_modifyPost [simp]:
  "b_deletedAt (builtinAt (fold (\<lambda>e. modifyPost (e_ownerId e) (e_key e) f) es st) k)
     = b_deletedAt (builtinAt st k)"
  by (induction es arbitrary: st) auto

text \<open>The two gallery cascades, in general form: \<open>st2\<close> is the document after the
  gallery, stored or inherited, has been written.\<close>

lemma cascade_effect:
  assumes wf: "wfState st2"
    and idem: "\<And>p. f (f p) = f p"
    and ls: "listPostsInGallery ownerId gid True st2 = (es, st3)"
    and st': "st' = fold (\<lambda>e. modifyPost (e_ownerId e) (e_key e) f) es st3"
  shows "wfState st'"
    and "storedGallery st' a k = storedGallery st2 a k"
    and "storedPost st' a k = map_option (\<lambda>p. if postUnder ownerId gid a p then f p else p) (storedPost st2 a k)"
    and "storedComment st' a k = storedComment st2 a k"
    and "map fst (userData st') = map fst (userData st2)"
    and "users st' = users st2"
    and "ownGallery st' a k = ownGallery st2 a k"
    and "b_deletedAt (builtinAt st' k) = b_deletedAt (builtinAt st2 k)"
proof -
  note locs = listPosts_locs [OF wf ls]
  note cp = cascade_posts [OF wf idem ls]
  show "wfState st'"
    unfolding st' locs(2) using wf by (simp add: wfState_fold_modifyPost wfState_fold_ensure)
  show "storedGallery st' a k = storedGallery st2 a k"
    unfolding st' cp(2) ..
  show "storedPost st' a k = map_option (\<lambda>p. if postUnder ownerId gid a p then f p else p) (storedPost st2 a k)"
    unfolding st' cp(1) by (simp add: postUnder_def split: option.splits)
  show "storedComment st' a k = storedComment st2 a k"
    unfolding st' locs(2) by simp
  show "users st' = users st2"
    unfolding st' locs(2) by simp
  show "map fst (userData st') = map fst (userData st2)"
    unfolding st' locs(2) by (simp add: keys_fold_ensure_same)
  show "ownGallery st' a k = ownGallery st2 a k"
    unfolding st' locs(2) by simp
  show "b_deletedAt (builtinAt st' k) = b_deletedAt (builtinAt st2 k)"
    unfolding st' locs(2) by simp
qed

lemma galleryFound_cases:
  obtains (undefined) "galleryFound st a k = Undefined" "ownGallery st a k = None"
      "k \<notin> set objectPrototypeKeys"
    | (own) g where "galleryFound st a k = Own g" "ownGallery st a k = Some g"
    | (inherited) "galleryFound st a k = Inherited" "ownGallery st a k = None"
      "k \<in> set objectPrototypeKeys"
  by (cases "ownGallery st a k"; cases "k \<in> set objectPrototypeKeys")
     (auto simp: galleryFound_ownGallery)

lemma ownGallery_modifyBuiltin_record:
  assumes "\<And>b. b_data (h b) = b_data b"
  shows "ownGallery (modifyBuiltin k' h st) a k = ownGallery st a k"
  by (simp add: ownGallery_def galleriesIn_modifyBuiltin assms)

lemma storedGallery_None_own:
  "ownGallery st a k = None \<Longrightarrow> storedGallery st a k = None"
  by (cases "storedGallery st a k") (auto dest: ownGallery_stored)


lemma deleteGallerySoft_effect:
  assumes wf: "wfState st"
    and run: "deleteGallerySoft actor now ownerId gid st = (Inr (), st')"
  shows "wfState st'"
    and "storedGallery st' a k =
           (if a = ownerId \<and> k = gid
            then map_option (\<lambda>g. g\<lparr>g_deletedAt := Some now, g_updatedAt := now\<rparr>) (storedGallery st a k)
            else storedGallery st a k)"
    and "storedPost st' a k =
           map_option (\<lambda>p. if postUnder ownerId gid a p then tombstoneByGallery now p else p)
             (storedPost st a k)"
    and "storedComment st' a k = storedComment st a k"
    and "galleryFound st ownerId gid \<noteq> Undefined
         \<and> \<not> truthy (galleryDeletedAt st gid (galleryFound st ownerId gid))"
    and "users st' = users st"
    and "ownGallery st' a k =
           (if a = ownerId \<and> k = gid
            then map_option (\<lambda>g. g\<lparr>g_deletedAt := Some now, g_updatedAt := now\<rparr>) (ownGallery st a k)
            else ownGallery st a k)"
    and "map fst (userData st') = map fst (userData (ensureUserData ownerId st))"
proof -
  let ?h = "\<lambda>g. g\<lparr>g_deletedAt := Some now, g_updatedAt := now\<rparr>"
  let ?hb = "\<lambda>b. b\<lparr>b_deletedAt := Some now, b_updatedAt := Some now\<rparr>"
  let ?st1 = "ensureUserData ownerId st"
  from run have perm: "canManage actor ownerId st"
    by (auto simp: deleteGallerySoft_def split: if_splits)
  have wf1: "wfState ?st1" using wf by (rule wfState_ensureUserData)
  have goal: "wfState st'
    \<and> storedGallery st' a k =
           (if a = ownerId \<and> k = gid then map_option ?h (storedGallery st a k) else storedGallery st a k)
    \<and> storedPost st' a k =
           map_option (\<lambda>p. if postUnder ownerId gid a p then tombstoneByGallery now p else p)
             (storedPost st a k)
    \<and> storedComment st' a k = storedComment st a k
    \<and> (galleryFound st ownerId gid \<noteq> Undefined
         \<and> \<not> truthy (galleryDeletedAt st gid (galleryFound st ownerId gid)))
    \<and> users st' = users st
    \<and> ownGallery st' a k =
           (if a = ownerId \<and> k = gid then map_option ?h (ownGallery st a k) else ownGallery st a k)
    \<and> map fst (userData st') = map fst (userData ?st1)"
  proof (cases rule: galleryFound_cases [of st ownerId gid])
    case undefined
    with run perm show ?thesis
      by (simp add: deleteGallerySoft_def at_ensured)
  next
    case (own g)
    define st2 where "st2 = modifyGallery ownerId gid ?h ?st1"
    obtain es st3 where ls: "listPostsInGallery ownerId gid True st2 = (es, st3)"
      by (cases "listPostsInGallery ownerId gid True st2")
    from run perm own(1) ls have alive: "\<not> truthy (g_deletedAt g)"
      and st': "st' = fold (\<lambda>e. modifyPost (e_ownerId e) (e_key e) (tombstoneByGallery now)) es st3"
      by (auto simp: deleteGallerySoft_def at_ensured Let_def st2_def split: if_splits)
    have wf2: "wfState st2" unfolding st2_def using wf1 by (rule wfState_modifyGallery)
    note eff = cascade_effect [OF wf2 tombstoneByGallery_idem ls st']
    show ?thesis
      using own(1) alive
      by (simp add: eff st2_def storedGallery_modifyGallery ownGallery_modifyGallery
          galleryDeletedAt_def)
  next
    case inherited
    define st2 where "st2 = modifyBuiltin gid ?hb ?st1"
    obtain es st3 where ls: "listPostsInGallery ownerId gid True st2 = (es, st3)"
      by (cases "listPostsInGallery ownerId gid True st2")
    from run perm inherited(1) ls have alive: "\<not> truthy (b_deletedAt (builtinAt st gid))"
      and st': "st' = fold (\<lambda>e. modifyPost (e_ownerId e) (e_key e) (tombstoneByGallery now)) es st3"
      by (auto simp: deleteGallerySoft_def at_ensured Let_def st2_def split: if_splits)
    have wf2: "wfState st2" unfolding st2_def using wf1 by simp
    note eff = cascade_effect [OF wf2 tombstoneByGallery_idem ls st']
    from inherited(2) have sg: "storedGallery st ownerId gid = None"
      by (rule storedGallery_None_own)
    show ?thesis
      using inherited(1,2) alive sg
      by (simp add: eff st2_def galleryDeletedAt_def ownGallery_modifyBuiltin_record)
  qed
  from goal show "wfState st'"
    and "storedGallery st' a k =
           (if a = ownerId \<and> k = gid then map_option ?h (storedGallery st a k) else storedGallery st a k)"
    and "storedPost st' a k =
           map_option (\<lambda>p. if postUnder ownerId gid a p then tombstoneByGallery now p else p)
             (storedPost st a k)"
    and "storedComment st' a k = storedComment st a k"
    and "galleryFound st ownerId gid \<noteq> Undefined
         \<and> \<not> truthy (galleryDeletedAt st gid (galleryFound st ownerId gid))"
    and "users st' = users st"
    and "ownGallery st' a k =
           (if a = ownerId \<and> k = gid then map_option ?h (ownGallery st a k) else ownGallery st a k)"
    and "map fst (userData st') = map fst (userData ?st1)"
    by blast+
qed


lemma scanGalleries_fst:
  "fst (scanGalleries gid owners st) =
     map_option (\<lambda>a. (a, galleryFound st a gid)) (find (\<lambda>a. galleryFound st a gid \<noteq> Undefined) owners)"
  by (induction owners arbitrary: st) (auto simp: Let_def at_ensured split: jsval.splits)

lemma find_append_none:
  "\<forall>x\<in>set ys. \<not> P x \<Longrightarrow> find P (xs @ ys) = find P xs"
  by (induction xs) (auto simp: find_None_iff)


lemma resolveGalleryCtx_fst:
  assumes "gid \<noteq> []"
  shows "fst (resolveGalleryCtx (Some gid) hint st) =
     map_option (\<lambda>a. (a, galleryFound st a gid)) (galleryOwnerFound st gid hint)"
proof (cases "truthy hint")
  case False
  then show ?thesis
    using assms by (simp add: resolveGalleryCtx_def galleryOwnerFound_def scanGalleries_fst)
next
  case True
  let ?h = "orString hint []"
  show ?thesis
  proof (cases "galleryFound st ?h gid = Undefined")
    case False
    with True assms show ?thesis
      by (simp add: resolveGalleryCtx_def galleryOwnerFound_def Let_def at_ensured
          split: jsval.splits)
  next
    case und: True
    have "find (\<lambda>a. galleryFound st a gid \<noteq> Undefined) (map fst (userData (ensureUserData ?h st)))
        = find (\<lambda>a. galleryFound st a gid \<noteq> Undefined) (map fst (userData st))"
      using und by (simp add: keys_ensureUserData find_append_none)
    with und True assms show ?thesis
      by (simp add: resolveGalleryCtx_def galleryOwnerFound_def Let_def scanGalleries_fst
          at_ensured)
  qed
qed


subsection \<open>Restoring a post\<close>



lemma galleryDeletedAt_fold_ensure [simp]:
  "galleryDeletedAt (fold ensureUserData us st) k g = galleryDeletedAt st k g"
  by (simp add: galleryDeletedAt_def split: jsval.splits)

lemma galleryDeletedAt_ensure [simp]:
  "galleryDeletedAt (ensureUserData u st) k g = galleryDeletedAt st k g"
  by (simp add: galleryDeletedAt_def split: jsval.splits)









subsection \<open>Normalisation by the queries\<close>

lemma orString_idem: "d \<noteq> [] \<Longrightarrow> orString (Some (orString x d)) d = orString x d"
  by (cases x) (auto simp: orString_def)

lemma normalizeSettings_idem: "normalizeSettings (normalizeSettings s) = normalizeSettings s"
  by (simp add: normalizeSettings_def orString_idem)

lemma normalizePartition_idem [simp]:
  "normalizePartition (normalizePartition ud) = normalizePartition ud"
  by (simp add: normalizePartition_def normalizeSettings_idem)

lemma stored_here_ensureUserData:
  "propertyGet (userData (ensureUserData u st)) a = Inherited
     \<longleftrightarrow> propertyGet (userData st) a = Inherited"
  by (auto simp: propertyGet_Inherited map_of_userData_ensureUserData)

lemma map_of_fold_ensure:
  "map_of (userData (fold ensureUserData us st)) a =
     (if a \<in> set us \<and> propertyGet (userData st) a \<noteq> Inherited
      then Some (normalizePartition (orDefault (map_of (userData st) a) defaultPartition))
      else map_of (userData st) a)"
proof (induction us arbitrary: st)
  case Nil
  show ?case by simp
next
  case (Cons u us)
  show ?case
    by (auto simp: Cons.IH stored_here_ensureUserData map_of_userData_ensureUserData)
qed

lemma update_in_place:
  "a \<notin> fst ` set xs \<Longrightarrow> AList.update a v (xs @ (a, u) # ys) = xs @ (a, v) # ys"
  by (induction xs) auto

lemma map_of_in_place:
  "a \<notin> fst ` set xs \<Longrightarrow> map_of (xs @ (a, u) # ys) a = Some u"
  by (induction xs) auto

lemma fold_ensure_split:
  "distinct (map fst (xs @ ys)) \<Longrightarrow>
     userData (fold ensureUserData (map fst ys) (st\<lparr>userData := xs @ ys\<rparr>))
       = xs @ map (\<lambda>(a, ud). (a, normalizePartition ud)) ys"
proof (induction ys arbitrary: xs st)
  case Nil
  show ?case by simp
next
  case (Cons y ys)
  obtain a ud where y: "y = (a, ud)" by (cases y)
  from Cons.prems have notin: "a \<notin> fst ` set xs" unfolding y by auto
  have step: "ensureUserData a (st\<lparr>userData := xs @ (a, ud) # ys\<rparr>)
      = st\<lparr>userData := (xs @ [(a, normalizePartition ud)]) @ ys\<rparr>"
    by (simp add: ensureUserData_def propertyGet_def map_of_in_place [OF notin]
        update_in_place [OF notin] del: map_of_append)
  from Cons.prems have "distinct (map fst ((xs @ [(a, normalizePartition ud)]) @ ys))"
    unfolding y by auto
  from Cons.IH [OF this, of st] show ?case
    unfolding y by (simp add: step)
qed

lemma fold_ensure_all:
  assumes "distinct (map fst (userData st))"
  shows "userData (fold ensureUserData (map fst (userData st)) st)
           = map (\<lambda>(a, ud). (a, normalizePartition ud)) (userData st)"
  using fold_ensure_split [of "[]" "userData st" st] assms by simp

lemma listGalleriesLoop_snd:
  "snd (listGalleriesLoop incl owners out st) = fold ensureUserData owners st"
  by (induction owners arbitrary: out st) (simp_all add: Let_def)

lemma listCommentsLoop_snd:
  "snd (listCommentsLoop pid incl owners out st) = fold ensureUserData owners st"
  by (induction owners arbitrary: out st) (simp_all add: Let_def)

lemma scanGalleries_scanned:
  "\<exists>us. snd (scanGalleries gid owners st) = fold ensureUserData us st
     \<and> (fst (scanGalleries gid owners st) = None \<longrightarrow> us = owners)
     \<and> (\<forall>a g. fst (scanGalleries gid owners st) = Some (a, g) \<longrightarrow> a \<in> set us)"
proof (induction owners arbitrary: st)
  case Nil
  show ?case by (rule exI [of _ "[]"]) simp
next
  case (Cons b owners)
  show ?case
  proof (cases "galleryFound st b gid = Undefined")
    case True
    from Cons [of "ensureUserData b st"] obtain us where
      us0: "(snd (scanGalleries gid owners (ensureUserData b st)) = fold ensureUserData us (ensureUserData b st))
        \<and> (fst (scanGalleries gid owners (ensureUserData b st)) = None \<longrightarrow> us = owners)
        \<and> (\<forall>a g. fst (scanGalleries gid owners (ensureUserData b st)) = Some (a, g) \<longrightarrow> a \<in> set us)"
      ..
    note us = us0 [THEN conjunct1] us0 [THEN conjunct2, THEN conjunct1] us0 [THEN conjunct2, THEN conjunct2]
    show ?thesis
      by (rule exI [of _ "b # us"]) (use True us in \<open>simp add: Let_def at_ensured\<close>)
  next
    case False
    show ?thesis
      by (rule exI [of _ "[b]"])
         (use False in \<open>simp add: Let_def at_ensured split: jsval.splits\<close>)
  qed
qed

lemma scanPosts_scanned:
  "\<exists>us. snd (scanPosts pid owners st) = fold ensureUserData us st
     \<and> (fst (scanPosts pid owners st) = None \<longrightarrow> us = owners)
     \<and> (\<forall>a p. fst (scanPosts pid owners st) = Some (a, p) \<longrightarrow> a \<in> set us)"
proof (induction owners arbitrary: st)
  case Nil
  show ?case by (rule exI [of _ "[]"]) simp
next
  case (Cons b owners)
  show ?case
  proof (cases "postFound st b pid = Undefined")
    case True
    from Cons [of "ensureUserData b st"] obtain us where
      us0: "(snd (scanPosts pid owners (ensureUserData b st)) = fold ensureUserData us (ensureUserData b st))
        \<and> (fst (scanPosts pid owners (ensureUserData b st)) = None \<longrightarrow> us = owners)
        \<and> (\<forall>a p. fst (scanPosts pid owners (ensureUserData b st)) = Some (a, p) \<longrightarrow> a \<in> set us)"
      ..
    note us = us0 [THEN conjunct1] us0 [THEN conjunct2, THEN conjunct1] us0 [THEN conjunct2, THEN conjunct2]
    show ?thesis
      by (rule exI [of _ "b # us"]) (use True us in \<open>simp add: Let_def at_ensured\<close>)
  next
    case False
    show ?thesis
      by (rule exI [of _ "[b]"])
         (use False in \<open>simp add: Let_def at_ensured split: jsval.splits\<close>)
  qed
qed

lemma normalized_fold_ensure:
  "a \<in> set us \<Longrightarrow> propertyGet (userData st) a \<noteq> Inherited
     \<Longrightarrow> normalized (fold ensureUserData us st) a"
  by (simp add: normalized_def map_of_fold_ensure)

lemma in_keys_map_of: "a \<in> set (map fst xs) \<Longrightarrow> map_of xs a \<noteq> None"
  by (induction xs) auto

lemma resolveGalleryCtx_scanned:
  "\<exists>us. snd (resolveGalleryCtx gid hint st) = fold ensureUserData us st
     \<and> (truthy gid \<and> truthy hint \<longrightarrow> orString hint [] \<in> set us)
     \<and> (truthy gid \<and> fst (resolveGalleryCtx gid hint st) = None
          \<longrightarrow> set (map fst (userData st)) \<subseteq> set us)
     \<and> (\<forall>a g. fst (resolveGalleryCtx gid hint st) = Some (a, g) \<longrightarrow> a \<in> set us)"
proof (cases "truthy gid")
  case False
  then have "resolveGalleryCtx gid hint st = (None, st)"
    by (cases gid) (simp_all add: resolveGalleryCtx_def)
  with False show ?thesis by (intro exI [of _ "[]"]) simp
next
  case True
  then obtain k where k: "gid = Some k" "k \<noteq> []" by (cases gid) auto
  show ?thesis
  proof (cases "truthy hint")
    case False
    from scanGalleries_scanned [of k "map fst (userData st)" st] obtain us where
      us0: "(snd (scanGalleries k (map fst (userData st)) st) = fold ensureUserData us st)
        \<and> (fst (scanGalleries k (map fst (userData st)) st) = None \<longrightarrow> us = map fst (userData st))
        \<and> (\<forall>a g. fst (scanGalleries k (map fst (userData st)) st) = Some (a, g) \<longrightarrow> a \<in> set us)"
      ..
    note us = us0 [THEN conjunct1] us0 [THEN conjunct2, THEN conjunct1] us0 [THEN conjunct2, THEN conjunct2]
    show ?thesis
      by (rule exI [of _ us]) (use False k us in \<open>auto simp: resolveGalleryCtx_def\<close>)
  next
    case hint: True
    let ?h = "orString hint []"
    let ?st1 = "ensureUserData ?h st"
    show ?thesis
    proof (cases "galleryFound st ?h k = Undefined")
      case False
      show ?thesis
        by (rule exI [of _ "[?h]"])
           (use False hint k in \<open>simp add: resolveGalleryCtx_def Let_def at_ensured split: jsval.splits\<close>)
    next
      case True
      from scanGalleries_scanned [of k "map fst (userData ?st1)" ?st1] obtain us where
      us0: "(snd (scanGalleries k (map fst (userData ?st1)) ?st1) = fold ensureUserData us ?st1)
        \<and> (fst (scanGalleries k (map fst (userData ?st1)) ?st1) = None
             \<longrightarrow> us = map fst (userData ?st1))
        \<and> (\<forall>a g. fst (scanGalleries k (map fst (userData ?st1)) ?st1) = Some (a, g) \<longrightarrow> a \<in> set us)"
      ..
    note us = us0 [THEN conjunct1] us0 [THEN conjunct2, THEN conjunct1] us0 [THEN conjunct2, THEN conjunct2]
      have sub: "set (map fst (userData st)) \<subseteq> set (map fst (userData ?st1))"
        by (auto simp: keys_ensureUserData)
      show ?thesis
        by (rule exI [of _ "?h # us"])
           (use True hint k us sub in \<open>auto simp: resolveGalleryCtx_def Let_def at_ensured\<close>)
    qed
  qed
qed

lemma resolvePostCtx_scanned:
  "\<exists>us. snd (resolvePostCtx pid hint st) = fold ensureUserData us st
     \<and> (truthy pid \<and> truthy hint \<longrightarrow> orString hint [] \<in> set us)
     \<and> (truthy pid \<and> fst (resolvePostCtx pid hint st) = None
          \<longrightarrow> set (map fst (userData st)) \<subseteq> set us)
     \<and> (\<forall>a p. fst (resolvePostCtx pid hint st) = Some (a, p) \<longrightarrow> a \<in> set us)"
proof (cases "truthy pid")
  case False
  then have "resolvePostCtx pid hint st = (None, st)"
    by (cases pid) (simp_all add: resolvePostCtx_def)
  with False show ?thesis by (intro exI [of _ "[]"]) simp
next
  case True
  then obtain k where k: "pid = Some k" "k \<noteq> []" by (cases pid) auto
  show ?thesis
  proof (cases "truthy hint")
    case False
    from scanPosts_scanned [of k "map fst (userData st)" st] obtain us where
      us0: "(snd (scanPosts k (map fst (userData st)) st) = fold ensureUserData us st)
        \<and> (fst (scanPosts k (map fst (userData st)) st) = None \<longrightarrow> us = map fst (userData st))
        \<and> (\<forall>a p. fst (scanPosts k (map fst (userData st)) st) = Some (a, p) \<longrightarrow> a \<in> set us)"
      ..
    note us = us0 [THEN conjunct1] us0 [THEN conjunct2, THEN conjunct1] us0 [THEN conjunct2, THEN conjunct2]
    show ?thesis
      by (rule exI [of _ us]) (use False k us in \<open>auto simp: resolvePostCtx_def\<close>)
  next
    case hint: True
    let ?h = "orString hint []"
    let ?st1 = "ensureUserData ?h st"
    show ?thesis
    proof (cases "postFound st ?h k = Undefined")
      case False
      show ?thesis
        by (rule exI [of _ "[?h]"])
           (use False hint k in \<open>simp add: resolvePostCtx_def Let_def at_ensured split: jsval.splits\<close>)
    next
      case True
      from scanPosts_scanned [of k "map fst (userData ?st1)" ?st1] obtain us where
      us0: "(snd (scanPosts k (map fst (userData ?st1)) ?st1) = fold ensureUserData us ?st1)
        \<and> (fst (scanPosts k (map fst (userData ?st1)) ?st1) = None
             \<longrightarrow> us = map fst (userData ?st1))
        \<and> (\<forall>a p. fst (scanPosts k (map fst (userData ?st1)) ?st1) = Some (a, p) \<longrightarrow> a \<in> set us)"
      ..
    note us = us0 [THEN conjunct1] us0 [THEN conjunct2, THEN conjunct1] us0 [THEN conjunct2, THEN conjunct2]
      have sub: "set (map fst (userData st)) \<subseteq> set (map fst (userData ?st1))"
        by (auto simp: keys_ensureUserData)
      show ?thesis
        by (rule exI [of _ "?h # us"])
           (use True hint k us sub in \<open>auto simp: resolvePostCtx_def Let_def at_ensured\<close>)
    qed
  qed
qed

subsection \<open>The queries write to the document\<close>

text \<open>
  The queries write to the document.  \<^verbatim>\<open>resolveGalleryCtx\<close> and \<^verbatim>\<open>resolvePostCtx\<close>,
  called (with a non-empty id) with a hint for which there is no partition and which
  is not the name of a member of \<^verbatim>\<open>Object.prototype\<close>, leave a new default partition
  under the hint.  The three listings replace every partition by its normalised
  form (missing settings, galleries, posts, comments filled in).  A resolution
  normalises the partitions it scans: all of them when nothing is found, and the
  partition of the owner it returns.
\<close>

lemma queries_normalise_partitions:
  assumes wf: "wfState st"
  shows "(gid \<noteq> [] \<and> hint \<noteq> [] \<and> map_of (userData st) hint = None
            \<and> hint \<notin> set objectPrototypeKeys \<longrightarrow>
            map_of (userData (snd (resolveGalleryCtx (Some gid) (Some hint) st))) hint
              = Some defaultPartition
            \<and> map_of (userData (snd (resolvePostCtx (Some gid) (Some hint) st))) hint
              = Some defaultPartition)
    \<and> userData (snd (listPostsInGallery ownerId galleryId incl st))
        = map (\<lambda>(a, ud). (a, normalizePartition ud)) (userData st)
    \<and> userData (snd (listAllGalleryEntries incl st))
        = map (\<lambda>(a, ud). (a, normalizePartition ud)) (userData st)
    \<and> userData (snd (listCommentsForPost le postId incl st))
        = map (\<lambda>(a, ud). (a, normalizePartition ud)) (userData st)
    \<and> (gid \<noteq> [] \<and> fst (resolveGalleryCtx (Some gid) h st) = None \<longrightarrow>
          (\<forall>a \<in> set (map fst (userData st)). normalized (snd (resolveGalleryCtx (Some gid) h st)) a))
    \<and> (gid \<noteq> [] \<and> fst (resolvePostCtx (Some gid) h st) = None \<longrightarrow>
          (\<forall>a \<in> set (map fst (userData st)). normalized (snd (resolvePostCtx (Some gid) h st)) a))
    \<and> (fst (resolveGalleryCtx k h st) = Some (b, g) \<and> propertyGet (userData st) b \<noteq> Inherited \<longrightarrow>
          normalized (snd (resolveGalleryCtx k h st)) b)
    \<and> (fst (resolvePostCtx k h st) = Some (b, p) \<and> propertyGet (userData st) b \<noteq> Inherited \<longrightarrow>
          normalized (snd (resolvePostCtx k h st)) b)"
proof -
  from wf have d: "distinct (map fst (userData st))" by (simp add: wfState_def)
  have lp: "userData (snd (listPostsInGallery ownerId galleryId incl st))
        = map (\<lambda>(a, ud). (a, normalizePartition ud)) (userData st)"
    by (simp add: listPostsInGallery_def listPostsLoop_eq fold_ensure_all [OF d])
  have lg: "userData (snd (listAllGalleryEntries incl st))
        = map (\<lambda>(a, ud). (a, normalizePartition ud)) (userData st)"
    by (simp add: listAllGalleryEntries_def listGalleriesLoop_snd fold_ensure_all [OF d])
  have "snd (listCommentsForPost le postId incl st)
      = snd (listCommentsLoop postId incl (map fst (userData st)) [] st)"
    by (simp add: listCommentsForPost_def split: prod.splits)
  then have lc: "userData (snd (listCommentsForPost le postId incl st))
        = map (\<lambda>(a, ud). (a, normalizePartition ud)) (userData st)"
    by (simp add: listCommentsLoop_snd fold_ensure_all [OF d])
  have hintG: "map_of (userData (snd (resolveGalleryCtx (Some gid) (Some hint) st))) hint
              = Some defaultPartition"
    if "gid \<noteq> []" "hint \<noteq> []" "map_of (userData st) hint = None"
      "hint \<notin> set objectPrototypeKeys"
  proof -
    from resolveGalleryCtx_scanned [of "Some gid" "Some hint" st] that obtain us where
      "snd (resolveGalleryCtx (Some gid) (Some hint) st) = fold ensureUserData us st" "hint \<in> set us"
      by (auto simp: orString_def)
    with that(3,4) show ?thesis by (simp add: map_of_fold_ensure propertyGet_Inherited)
  qed
  have hintP: "map_of (userData (snd (resolvePostCtx (Some gid) (Some hint) st))) hint
              = Some defaultPartition"
    if "gid \<noteq> []" "hint \<noteq> []" "map_of (userData st) hint = None"
      "hint \<notin> set objectPrototypeKeys"
  proof -
    from resolvePostCtx_scanned [of "Some gid" "Some hint" st] that obtain us where
      "snd (resolvePostCtx (Some gid) (Some hint) st) = fold ensureUserData us st" "hint \<in> set us"
      by (auto simp: orString_def)
    with that(3,4) show ?thesis by (simp add: map_of_fold_ensure propertyGet_Inherited)
  qed
  have noneG: "normalized (snd (resolveGalleryCtx (Some gid) h st)) a"
    if "gid \<noteq> []" "fst (resolveGalleryCtx (Some gid) h st) = None" "a \<in> set (map fst (userData st))"
    for a
  proof -
    from resolveGalleryCtx_scanned [of "Some gid" h st] that obtain us where
      "snd (resolveGalleryCtx (Some gid) h st) = fold ensureUserData us st" "a \<in> set us"
      by auto
    with that(3) show ?thesis
      by (simp add: normalized_fold_ensure propertyGet_Inherited in_keys_map_of)
  qed
  have noneP: "normalized (snd (resolvePostCtx (Some gid) h st)) a"
    if "gid \<noteq> []" "fst (resolvePostCtx (Some gid) h st) = None" "a \<in> set (map fst (userData st))"
    for a
  proof -
    from resolvePostCtx_scanned [of "Some gid" h st] that obtain us where
      "snd (resolvePostCtx (Some gid) h st) = fold ensureUserData us st" "a \<in> set us"
      by auto
    with that(3) show ?thesis
      by (simp add: normalized_fold_ensure propertyGet_Inherited in_keys_map_of)
  qed
  have someG: "normalized (snd (resolveGalleryCtx k h st)) b"
    if "fst (resolveGalleryCtx k h st) = Some (b, g)" "propertyGet (userData st) b \<noteq> Inherited"
  proof -
    from resolveGalleryCtx_scanned [of k h st] that obtain us where
      "snd (resolveGalleryCtx k h st) = fold ensureUserData us st" "b \<in> set us"
      by auto
    with that(2) show ?thesis by (simp add: normalized_fold_ensure)
  qed
  have someP: "normalized (snd (resolvePostCtx k h st)) b"
    if "fst (resolvePostCtx k h st) = Some (b, p)" "propertyGet (userData st) b \<noteq> Inherited"
  proof -
    from resolvePostCtx_scanned [of k h st] that obtain us where
      "snd (resolvePostCtx k h st) = fold ensureUserData us st" "b \<in> set us"
      by auto
    with that(2) show ?thesis by (simp add: normalized_fold_ensure)
  qed
  from lp lg lc hintG hintP noneG noneP someG someP show ?thesis by blast
qed

lemma scanPosts_fst:
  "fst (scanPosts pid owners st) =
     map_option (\<lambda>a. (a, postFound st a pid)) (find (\<lambda>a. postFound st a pid \<noteq> Undefined) owners)"
  by (induction owners arbitrary: st) (auto simp: Let_def at_ensured split: jsval.splits)

lemma demo_keys: "map fst (userData demoState) = [''u_alice'', ''u_bob'', ''u_carol'']"
  by (simp add: demoState_def)

lemma demo_galleries:
  "galleryFound demoState ''u_alice'' ''g_none'' = Undefined"
  "galleryFound demoState ''u_bob'' ''g_none'' = Undefined"
  "galleryFound demoState ''u_carol'' ''g_none'' = Undefined"
  "galleryFound demoState ''u_alice'' ''g_bob'' = Undefined"
  "galleryFound demoState ''u_bob'' ''g_bob'' = Own demoBobGallery"
  by (simp_all add: galleryFound_def galleriesIn_def partitionOf_def propertyGet_def demoState_def
      objectPrototypeKeys_def)

lemma demo_no_posts:
  "postFound demoState ''u_alice'' ''p_none'' = Undefined"
  "postFound demoState ''u_bob'' ''p_none'' = Undefined"
  "postFound demoState ''u_carol'' ''p_none'' = Undefined"
  "postFound demoState ''u_alice'' ''p_day1'' = Undefined"
  "postFound demoState ''u_bob'' ''p_day1'' = Own demoDay1"
  by (simp_all add: postFound_def postsIn_def partitionOf_def propertyGet_def demoState_def
      objectPrototypeKeys_def)

text \<open>On the sample document: a hint for the unknown user \<open>u_dave\<close> leaves
  a partition for him; a listing changes the document, because Carol's partition
  lacked fields; a failed resolution normalises all three partitions, a successful
  one the partition of Bob.\<close>

lemma queries_on_the_sample:
  "map_of (userData (snd (resolveGalleryCtx (Some ''g_none'') (Some ''u_dave'') demoState)))
        ''u_dave'' = Some defaultPartition
   \<and> map_of (userData (snd (resolvePostCtx (Some ''g_none'') (Some ''u_dave'') demoState)))
        ''u_dave'' = Some defaultPartition
   \<and> userData (snd (listPostsInGallery ''u_alice'' ''g_trip'' False demoState))
        = map (\<lambda>(a, ud). (a, normalizePartition ud)) (userData demoState)
   \<and> snd (listPostsInGallery ''u_alice'' ''g_trip'' False demoState) \<noteq> demoState
   \<and> \<not> normalized demoState ''u_carol''
   \<and> map_of (userData (snd (listPostsInGallery ''u_alice'' ''g_trip'' False demoState))) ''u_carol''
        = Some \<lparr>settings = Some defaultSettings, galleries = Some [], posts = Some [],
                comments = Some [(''c_1'', demoComment1), (''c_2'', demoComment2)],
                media = Some []\<rparr>
   \<and> fst (resolveGalleryCtx (Some ''g_none'') None demoState) = None
   \<and> normalized (snd (resolveGalleryCtx (Some ''g_none'') None demoState)) ''u_alice''
   \<and> normalized (snd (resolveGalleryCtx (Some ''g_none'') None demoState)) ''u_bob''
   \<and> normalized (snd (resolveGalleryCtx (Some ''g_none'') None demoState)) ''u_carol''
   \<and> fst (resolvePostCtx (Some ''p_none'') None demoState) = None
   \<and> normalized (snd (resolvePostCtx (Some ''p_none'') None demoState)) ''u_alice''
   \<and> normalized (snd (resolvePostCtx (Some ''p_none'') None demoState)) ''u_bob''
   \<and> normalized (snd (resolvePostCtx (Some ''p_none'') None demoState)) ''u_carol''
   \<and> fst (resolveGalleryCtx (Some ''g_bob'') None demoState) = Some (''u_bob'', Own demoBobGallery)
   \<and> normalized (snd (resolveGalleryCtx (Some ''g_bob'') None demoState)) ''u_bob''
   \<and> fst (resolvePostCtx (Some ''p_day1'') None demoState) = Some (''u_bob'', Own demoDay1)
   \<and> normalized (snd (resolvePostCtx (Some ''p_day1'') None demoState)) ''u_bob''"
proof -
  have nodave: "map_of (userData demoState) ''u_dave'' = None"
    "''u_dave'' \<notin> set objectPrototypeKeys"
    by (simp_all add: demoState_def objectPrototypeKeys_def)
  have bob: "propertyGet (userData demoState) ''u_bob'' \<noteq> Inherited"
    by (simp add: propertyGet_def demoState_def)
  have carol: "\<not> normalized demoState ''u_carol''"
    by (simp add: normalized_def demoState_def normalizePartition_def)
  have g1: "fst (resolveGalleryCtx (Some ''g_none'') None demoState) = None"
    by (simp add: resolveGalleryCtx_fst galleryOwnerFound_def demo_keys demo_galleries)
  have g2: "fst (resolveGalleryCtx (Some ''g_bob'') None demoState) = Some (''u_bob'', Own demoBobGallery)"
    by (simp add: resolveGalleryCtx_fst galleryOwnerFound_def demo_keys demo_galleries)
  have p1: "fst (resolvePostCtx (Some ''p_none'') None demoState) = None"
    by (simp add: resolvePostCtx_def scanPosts_fst) (simp add: demo_keys demo_no_posts)
  have p2: "fst (resolvePostCtx (Some ''p_day1'') None demoState) = Some (''u_bob'', Own demoDay1)"
    by (simp add: resolvePostCtx_def scanPosts_fst) (simp add: demo_keys demo_no_posts)
  note inst = queries_normalise_partitions [OF demo_wf]
  from inst [where gid = "''g_none''" and hint = "''u_dave''"] nodave
  have a: "map_of (userData (snd (resolveGalleryCtx (Some ''g_none'') (Some ''u_dave'') demoState)))
        ''u_dave'' = Some defaultPartition"
    "map_of (userData (snd (resolvePostCtx (Some ''g_none'') (Some ''u_dave'') demoState)))
        ''u_dave'' = Some defaultPartition"
    by simp_all
  from inst [where ownerId = "''u_alice''" and galleryId = "''g_trip''" and incl = False]
  have b: "userData (snd (listPostsInGallery ''u_alice'' ''g_trip'' False demoState))
        = map (\<lambda>(a, ud). (a, normalizePartition ud)) (userData demoState)"
    by blast
  have "userData (snd (listPostsInGallery ''u_alice'' ''g_trip'' False demoState))
      \<noteq> userData demoState"
    unfolding b by (simp add: demoState_def normalizePartition_def)
  then have c: "snd (listPostsInGallery ''u_alice'' ''g_trip'' False demoState) \<noteq> demoState"
    by auto
  have c2: "map_of (userData (snd (listPostsInGallery ''u_alice'' ''g_trip'' False demoState))) ''u_carol''
        = Some \<lparr>settings = Some defaultSettings, galleries = Some [], posts = Some [],
                comments = Some [(''c_1'', demoComment1), (''c_2'', demoComment2)],
                media = Some []\<rparr>"
    unfolding b
    by (simp add: demoState_def normalizePartition_def normalizeSettings_def defaultSettings_def
        orString_def)
  from inst [where gid = "''g_none''" and h = None] g1
  have d: "normalized (snd (resolveGalleryCtx (Some ''g_none'') None demoState)) ''u_alice''"
    "normalized (snd (resolveGalleryCtx (Some ''g_none'') None demoState)) ''u_bob''"
    "normalized (snd (resolveGalleryCtx (Some ''g_none'') None demoState)) ''u_carol''"
    by (simp_all add: demo_keys)
  from inst [where gid = "''p_none''" and h = None] p1
  have e: "normalized (snd (resolvePostCtx (Some ''p_none'') None demoState)) ''u_alice''"
    "normalized (snd (resolvePostCtx (Some ''p_none'') None demoState)) ''u_bob''"
    "normalized (snd (resolvePostCtx (Some ''p_none'') None demoState)) ''u_carol''"
    by (simp_all add: demo_keys)
  from inst [where k = "Some ''g_bob''" and h = None and b = "''u_bob''" and g = "Own demoBobGallery"]
    g2 bob
  have f: "normalized (snd (resolveGalleryCtx (Some ''g_bob'') None demoState)) ''u_bob''"
    by blast
  from inst [where k = "Some ''p_day1''" and h = None and b = "''u_bob''" and p = "Own demoDay1"]
    p2 bob
  have g: "normalized (snd (resolvePostCtx (Some ''p_day1'') None demoState)) ''u_bob''"
    by blast
  from a b c c2 carol g1 d p1 e g2 f p2 g show ?thesis by blast
qed

text \<open>
  Claim C10, at an input where the program departs from it.  No partition is stored
  under \<open>constructor\<close>, yet \<^verbatim>\<open>resolveGalleryCtx\<close> and \<^verbatim>\<open>resolvePostCtx\<close> called with that
  hint create none: in \<^verbatim>\<open>ensureUserData\<close> the read \<^verbatim>\<open>state.userData["constructor"]\<close> is
  the inherited \<^verbatim>\<open>Object\<close> function, so \<^verbatim>\<open>||=\<close> assigns nothing, the partition defaults
  are put on that function, and \<^verbatim>\<open>userData\<close> keeps the keys it had (none in the
  empty document, three in the sample document).  The hint of \<^verbatim>\<open>resolveGalleryCtx\<close>
  is the \<^verbatim>\<open>galleryOwnerId\<close> of a stored post when \<^verbatim>\<open>restorePost\<close> calls it.
\<close>

theorem resolve_hint_names_member:
  "map_of (userData emptyState) ''constructor'' = None
   \<and> snd (resolveGalleryCtx (Some ''g_1'') (Some ''constructor'') emptyState)
        = emptyState\<lparr>builtins := [(''constructor'', emptyBuiltin\<lparr>b_data := defaultPartition\<rparr>)]\<rparr>
   \<and> snd (resolvePostCtx (Some ''p_1'') (Some ''constructor'') emptyState)
        = emptyState\<lparr>builtins := [(''constructor'', emptyBuiltin\<lparr>b_data := defaultPartition\<rparr>)]\<rparr>
   \<and> map_of (userData (snd (resolveGalleryCtx (Some ''g_1'') (Some ''constructor'') emptyState)))
        ''constructor'' = None
   \<and> map_of (userData demoState) ''constructor'' = None
   \<and> map fst (userData (snd (resolveGalleryCtx (Some ''g_none'') (Some ''constructor'') demoState)))
        = [''u_alice'', ''u_bob'', ''u_carol'']
   \<and> fst (resolveGalleryCtx (Some ''g_none'') (Some ''constructor'') demoState) = None"
proof -
  have inh: "propertyGet [] ''constructor'' = Inherited"
    "propertyGet (userData demoState) ''constructor'' = Inherited"
    by (simp_all add: propertyGet_def objectPrototypeKeys_def demoState_def)
  have e1: "ensureUserData ''constructor'' emptyState
      = emptyState\<lparr>builtins := [(''constructor'', emptyBuiltin\<lparr>b_data := defaultPartition\<rparr>)]\<rparr>"
    by (simp add: ensureUserData_def emptyState_def inh modifyBuiltin_def builtinAt_def
        emptyBuiltin_def normalizePartition_def defaultPartition_def normalizeSettings_def
        defaultSettings_def orString_def)
  have g: "galleryFound emptyState ''constructor'' ''g_1'' = Undefined"
    "postFound emptyState ''constructor'' ''p_1'' = Undefined"
    by (simp_all add: galleryFound_def postFound_def galleriesIn_def postsIn_def partitionOf_def
        emptyState_def inh builtinAt_def emptyBuiltin_def propertyGet_def objectPrototypeKeys_def)
  have k0: "userData (ensureUserData ''constructor'' emptyState) = []"
    by (simp add: e1) (simp add: emptyState_def)
  have r1: "snd (resolveGalleryCtx (Some ''g_1'') (Some ''constructor'') emptyState)
      = ensureUserData ''constructor'' emptyState"
    by (simp add: resolveGalleryCtx_def Let_def orString_def at_ensured g k0)
  have r2: "snd (resolvePostCtx (Some ''p_1'') (Some ''constructor'') emptyState)
      = ensureUserData ''constructor'' emptyState"
    by (simp add: resolvePostCtx_def Let_def orString_def at_ensured g k0)
  have none: "map_of (userData emptyState) ''constructor'' = None"
    "map_of (userData demoState) ''constructor'' = None"
    by (simp_all add: emptyState_def demoState_def)
  have d1: "fst (resolveGalleryCtx (Some ''g_none'') (Some ''constructor'') demoState) = None"
    by (simp add: resolveGalleryCtx_fst galleryOwnerFound_def demo_keys demo_galleries orString_def)
       (simp add: galleryFound_def galleriesIn_def partitionOf_def inh builtinAt_def demoState_def
          emptyBuiltin_def propertyGet_def objectPrototypeKeys_def)
  have d2: "map fst (userData (snd (resolveGalleryCtx (Some ''g_none'') (Some ''constructor'') demoState)))
      = [''u_alice'', ''u_bob'', ''u_carol'']"
  proof -
    let ?st1 = "ensureUserData ''constructor'' demoState"
    have k1: "map fst (userData ?st1) = [''u_alice'', ''u_bob'', ''u_carol'']"
      by (simp add: keys_ensureUserData objectPrototypeKeys_def demo_keys)
    have gf: "galleryFound demoState ''constructor'' ''g_none'' = Undefined"
      by (simp add: galleryFound_def galleriesIn_def partitionOf_def inh builtinAt_def demoState_def
          emptyBuiltin_def propertyGet_def objectPrototypeKeys_def)
    have "snd (resolveGalleryCtx (Some ''g_none'') (Some ''constructor'') demoState)
        = snd (scanGalleries ''g_none'' (map fst (userData ?st1)) ?st1)"
      by (simp add: resolveGalleryCtx_def Let_def orString_def at_ensured gf)
    also have "\<dots> = fold ensureUserData [''u_alice'', ''u_bob'', ''u_carol''] ?st1"
      unfolding k1 by (simp add: Let_def at_ensured demo_galleries)
    finally show ?thesis
      by (simp add: keys_ensureUserData demo_keys objectPrototypeKeys_def)
  qed
  from none r1 r2 e1 d1 d2 show ?thesis
    by (simp add: emptyState_def)
qed

end
